(* ===== verification/Prelude.thy ===== *)
theory Prelude
  imports Complex_Main
begin

text \<open>
  Shared vocabulary of the development: the named collections of evaluation rules
  that the component theories fill, the type names of the model (frames, seconds),
  and the generic lemmas on lists and on rounding that several components use.
  Frame numbers are \<open>int\<close> (Remotion frames are JavaScript numbers and the
  scene code subtracts them freely, so they may become negative); seconds and
  layout weights are exact rationals (see JsSemantics for why that is faithful
  at the inputs the program uses).
\<close>

named_theorems js_simps "evaluation rules of the JavaScript value model"
named_theorems layout_simps "evaluation rules of the layout component"
named_theorems scene_simps "evaluation rules of the scene descriptions"

type_synonym frame = int
type_synonym seconds = rat

subsection \<open>Rounding half up\<close>

text \<open>
  \<open>\<lfloor>x + 1/2\<rfloor>\<close> is JavaScript's \<open>Math.round\<close>; the two facts below are what
  every ordering argument about the timing tables needs: rounding is monotone,
  and two inputs at least one apart round to different integers.
\<close>

lemma floor_half_mono:
  fixes x y :: "'a::floor_ceiling"
  assumes "x \<le> y"
  shows "\<lfloor>x + 1/2\<rfloor> \<le> \<lfloor>y + 1/2\<rfloor>"
  using assms by (intro floor_mono) simp

lemma floor_half_step:
  fixes x y :: "'a::floor_ceiling"
  assumes "x + 1 \<le> y"
  shows "\<lfloor>x + 1/2\<rfloor> < \<lfloor>y + 1/2\<rfloor>"
proof -
  have "\<lfloor>x + 1/2\<rfloor> + 1 = \<lfloor>(x + 1) + 1/2\<rfloor>"
    using floor_add_int [of "x + 1/2" 1] by (simp add: algebra_simps)
  also have "\<dots> \<le> \<lfloor>y + 1/2\<rfloor>"
    using assms by (rule floor_half_mono)
  finally show ?thesis by simp
qed

subsection \<open>Lists indexed as JavaScript's \<open>Array.prototype.map\<close> indexes them\<close>

text \<open>
  \<open>xs.map((x, i) => f(i, x))\<close> is \<open>map f (enumerate 0 xs)\<close>.
\<close>

lemma nth_map_enumerate [simp]:
  "i < length xs \<Longrightarrow> map f (enumerate 0 xs) ! i = f (i, xs ! i)"
  by (simp add: nth_enumerate_eq)

lemma map_enumerate_snd:
  "map (\<lambda>p. g (snd p)) (enumerate n xs) = map g xs"
  by (induction xs arbitrary: n) simp_all

lemma map_enumerate_fst:
  "map (\<lambda>p. g (fst p)) (enumerate n xs) = map g [n..<n + length xs]"
  by (induction xs arbitrary: n) (simp_all add: upt_rec)

lemma concat_concat_map [simp]:
  "concat (concat (map f xs)) = concat (map (\<lambda>x. concat (f x)) xs)"
  by (induction xs) simp_all

end
