(* ===== verification/JsSemantics.thy ===== *)
theory JsSemantics
  imports Prelude
begin

text \<open>
  The fragment of JavaScript's value semantics the sources rely on: numbers with
  their falsy values, the \<open>||\<close> operator on a possibly-undefined number, array
  reads past the end, and \<open>Math.round\<close>. A finite double is modelled by the exact
  rational it is written as (\<open>0.15\<close> is \<open>15/100\<close>); \<open>-0\<close> and \<open>0\<close> behave alike
  under every operation used here and are both \<open>Fin 0\<close>. The timing theories
  prove that no rounding in the program lies close enough to a half-integer for the
  difference between a double and its decimal to change a result.
\<close>

datatype jsnum = Fin rat | NaN | PosInf | NegInf

text \<open>\<open>ToBoolean\<close> on numbers: \<open>0\<close>, \<open>-0\<close> and \<open>NaN\<close> are falsy, all others truthy.\<close>

fun js_truthy :: "jsnum \<Rightarrow> bool" where
  "js_truthy (Fin q) = (q \<noteq> 0)"
| "js_truthy NaN = False"
| "js_truthy PosInf = True"
| "js_truthy NegInf = True"

text \<open>
  Reading \<open>xs[i]\<close> of an array: the element when \<open>i\<close> is in range, \<open>undefined\<close>
  (\<open>None\<close>) past the end; JavaScript never raises here.
\<close>

definition js_array_get :: "'a list \<Rightarrow> nat \<Rightarrow> 'a option" where
  "js_array_get xs i = (if i < length xs then Some (xs ! i) else None)"

text \<open>
  \<open>a || b\<close> where \<open>a\<close> is a number or \<open>undefined\<close>: \<open>a\<close> when it is truthy, else
  \<open>b\<close> (\<open>undefined\<close> is falsy).
\<close>

definition js_or :: "jsnum option \<Rightarrow> jsnum \<Rightarrow> jsnum" where
  "js_or a b = (case a of None \<Rightarrow> b | Some x \<Rightarrow> if js_truthy x then x else b)"

text \<open>\<open>Math.round\<close> on a finite number: round half up, towards \<open>+\<infinity>\<close>.\<close>

definition js_round :: "rat \<Rightarrow> int" where
  "js_round x = \<lfloor>x + 1/2\<rfloor>"

lemma js_array_get_in [simp, js_simps]:
  "i < length xs \<Longrightarrow> js_array_get xs i = Some (xs ! i)"
  by (simp add: js_array_get_def)

lemma js_array_get_out [simp, js_simps]:
  "length xs \<le> i \<Longrightarrow> js_array_get xs i = None"
  by (simp add: js_array_get_def)

lemma js_array_get_Nil [simp, js_simps]: "js_array_get [] i = None"
  by (simp add: js_array_get_def)

lemma js_array_get_Cons [js_simps]:
  "js_array_get (x # xs) i = (case i of 0 \<Rightarrow> Some x | Suc j \<Rightarrow> js_array_get xs j)"
  by (simp add: js_array_get_def split: nat.split)

lemma js_or_None [simp, js_simps]: "js_or None b = b"
  by (simp add: js_or_def)

lemma js_or_Some [simp, js_simps]: "js_or (Some x) b = (if js_truthy x then x else b)"
  by (simp add: js_or_def)

lemma js_or_truthy:
  "js_truthy b \<Longrightarrow> js_truthy (js_or a b)"
  by (cases a) simp_all

lemma js_or_cases:
  "js_or a b = b \<or> (\<exists>x. a = Some x \<and> js_truthy x \<and> js_or a b = x)"
  by (cases a) auto

lemma js_truthy_Fin_pos: "0 < q \<Longrightarrow> js_truthy (Fin q)"
  by simp

lemma js_round_mono: "x \<le> y \<Longrightarrow> js_round x \<le> js_round y"
  unfolding js_round_def by (rule floor_half_mono)

lemma js_round_step: "x + 1 \<le> y \<Longrightarrow> js_round x < js_round y"
  unfolding js_round_def by (rule floor_half_step)

lemma js_round_of_int [simp]: "js_round (of_int n) = n"
  unfolding js_round_def by linarith

lemma js_round_less_iff: "js_round x < n \<longleftrightarrow> x + 1/2 < of_int n"
  unfolding js_round_def by (rule floor_less_iff)

lemma js_round_ge_iff: "n \<le> js_round x \<longleftrightarrow> of_int n \<le> x + 1/2"
  unfolding js_round_def by (rule le_floor_iff)

lemma js_round_eqI:
  "of_int n \<le> x + 1/2 \<Longrightarrow> x + 1/2 < of_int n + 1 \<Longrightarrow> js_round x = n"
  unfolding js_round_def by (simp add: floor_eq_iff)

lemma js_round_stable:
  assumes "of_int (js_round x) + e \<le> x + 1/2" and "x + 1/2 + e < of_int (js_round x) + 1"
    and "\<bar>y - x\<bar> < e"
  shows "js_round y = js_round x"
  using assms by (intro js_round_eqI) (auto simp: abs_less_iff)

end
