(* ===== verification/ReactChildren.thy ===== *)
theory ReactChildren
  imports JsSemantics
begin

text \<open>
  React's children values and \<open>React.Children.toArray\<close>, which FlexContainer
  calls on its \<open>children\<close> prop (src/src/components/FlexContainer.tsx, line 10).
  Both belong to the React library, not to this repository, so they are modelled
  from React's documented behaviour: \<open>toArray\<close> flattens nested arrays, drops
  \<open>null\<close>, \<open>undefined\<close> and booleans, and keeps strings, numbers and elements;
  an element, a fragment included, is one child and is not looked into.
  JSX passes no child as \<open>undefined\<close>, one child as itself and several as an
  array (\<open>jsx_children\<close>). The element type \<open>'e\<close> is a parameter: the layout
  never inspects an element.
\<close>

datatype 'e rnode =
    RNull
  | RUndefined
  | RBool bool
  | RStr string
  | RNum jsnum
  | RElem 'e
  | RArr "'e rnode list"

datatype 'e rchild = CStr string | CNum jsnum | CElem 'e

fun to_array :: "'e rnode \<Rightarrow> 'e rchild list" where
  "to_array RNull = []"
| "to_array RUndefined = []"
| "to_array (RBool b) = []"
| "to_array (RStr s) = [CStr s]"
| "to_array (RNum n) = [CNum n]"
| "to_array (RElem e) = [CElem e]"
| "to_array (RArr xs) = concat (map to_array xs)"

definition jsx_children :: "'e rnode list \<Rightarrow> 'e rnode" where
  "jsx_children cs = (case cs of [] \<Rightarrow> RUndefined | [c] \<Rightarrow> c | _ \<Rightarrow> RArr cs)"

text \<open>The child value a flattened child stands for, used to state idempotence.\<close>

fun of_rchild :: "'e rchild \<Rightarrow> 'e rnode" where
  "of_rchild (CStr s) = RStr s"
| "of_rchild (CNum n) = RNum n"
| "of_rchild (CElem e) = RElem e"

text \<open>The elements of a children value, in document order.\<close>

fun rnode_elems :: "'e rnode \<Rightarrow> 'e list" where
  "rnode_elems (RElem e) = [e]"
| "rnode_elems (RArr xs) = concat (map rnode_elems xs)"
| "rnode_elems _ = []"

fun rchild_elem :: "'e rchild \<Rightarrow> 'e list" where
  "rchild_elem (CElem e) = [e]"
| "rchild_elem _ = []"

subsection \<open>Facts about flattening\<close>

lemma to_array_jsx_children [simp, layout_simps]:
  "to_array (jsx_children cs) = concat (map to_array cs)"
  by (simp add: jsx_children_def split: list.split)

lemma to_array_of_rchild [simp]: "to_array (of_rchild c) = [c]"
  by (cases c) simp_all

lemma to_array_RArr_append:
  "to_array (RArr (xs @ ys)) = to_array (RArr xs) @ to_array (RArr ys)"
  by simp

lemma length_to_array_RArr:
  "length (to_array (RArr xs)) = sum_list (map (\<lambda>x. length (to_array x)) xs)"
  by (induction xs) simp_all

lemma concat_map_rchild_elem_to_array [simp]:
  "concat (map rchild_elem (to_array n)) = rnode_elems n"
proof (induction n rule: rnode_elems.induct)
  case (2 xs)
  then show ?case by (induction xs) auto
qed simp_all

end
