(* ===== verification/FlexContainer.thy ===== *)
theory FlexContainer
  imports ReactChildren
begin

text \<open>
  The layout component \<open>FlexContainer\<close> (src/src/components/FlexContainer.tsx).
  Its props are a record whose optional fields are \<open>option\<close>s, resolved to the
  defaults of the destructuring on line 9; its output is the outer \<open>div\<close> (class
  string and the list of cells) with one cell per child of
  \<open>React.Children.toArray(children)\<close>, each carrying \<open>key = index\<close>, the
  style \<open>flex = ratios[index] || 1\<close> and the centring classes. The element type
  of the children is a parameter: the component never inspects a child.
  Against it stands the abstract layout of the specification (a list of
  (child, weight) pairs, a supplied positive weight or else \<open>1\<close>), with the
  refinement lemma and the input on which code and specification part.
\<close>

datatype direction = Row | Column

record 'e flex_props =
  fc_children :: "'e rnode"
  fc_direction :: "direction option"
  fc_ratios :: "jsnum list option"
  fc_className :: "string option"

record 'e cell =
  cell_key :: nat
  cell_flex :: jsnum
  cell_class :: string
  cell_child :: "'e rchild"

record 'e flex_div =
  div_class :: string
  div_cells :: "'e cell list"

subsection \<open>The component\<close>

text \<open>The defaults of \<open>{ direction = "column", ratios = [], className = "" }\<close>.\<close>

definition resolved_direction :: "'e flex_props \<Rightarrow> direction" where
  "resolved_direction p = (case fc_direction p of None \<Rightarrow> Column | Some d \<Rightarrow> d)"

definition resolved_ratios :: "'e flex_props \<Rightarrow> jsnum list" where
  "resolved_ratios p = (case fc_ratios p of None \<Rightarrow> [] | Some rs \<Rightarrow> rs)"

definition resolved_className :: "'e flex_props \<Rightarrow> string" where
  "resolved_className p = (case fc_className p of None \<Rightarrow> [] | Some c \<Rightarrow> c)"

text \<open>\<open>direction === "row" ? "flex-row" : "flex-col"\<close>\<close>

definition direction_class :: "direction \<Rightarrow> string" where
  "direction_class d = (if d = Row then ''flex-row'' else ''flex-col'')"

text \<open>\<open>const flex = ratios[index] || 1\<close>\<close>

definition flex_of :: "jsnum list \<Rightarrow> nat \<Rightarrow> jsnum" where
  "flex_of ratios index = js_or (js_array_get ratios index) (Fin 1)"

text \<open>The body of \<open>childrenArray.map((child, index) => ...)\<close>: one centred cell.\<close>

definition flex_cell :: "jsnum list \<Rightarrow> nat \<times> 'e rchild \<Rightarrow> 'e cell" where
  "flex_cell ratios p =
     \<lparr>cell_key = fst p, cell_flex = flex_of ratios (fst p),
      cell_class = ''flex items-center justify-center'', cell_child = snd p\<rparr>"

definition flex_container :: "'e flex_props \<Rightarrow> 'e flex_div" where
  "flex_container p =
     (let childrenArray = to_array (fc_children p)
      in \<lparr>div_class = ''flex w-full h-full '' @ direction_class (resolved_direction p) @ '' ''
                      @ resolved_className p,
          div_cells = map (flex_cell (resolved_ratios p)) (enumerate 0 childrenArray)\<rparr>)"

subsection \<open>The specification's layout\<close>

text \<open>
  Spec \<section>3: a supplied weight is used when it is a positive number; a missing or
  malformed one falls back to \<open>1\<close>. The abstract result is the list of
  (child, weight) pairs in input order, and \<open>layout_of\<close> abstracts a rendered
  container to it.
\<close>

fun spec_valid_weight :: "jsnum \<Rightarrow> bool" where
  "spec_valid_weight (Fin q) = (0 < q)"
| "spec_valid_weight _ = False"

definition spec_weight :: "jsnum list \<Rightarrow> nat \<Rightarrow> jsnum" where
  "spec_weight ratios i =
     (if i < length ratios \<and> spec_valid_weight (ratios ! i) then ratios ! i else Fin 1)"

definition spec_layout :: "'e rchild list \<Rightarrow> jsnum list \<Rightarrow> ('e rchild \<times> jsnum) list" where
  "spec_layout children ratios = map (\<lambda>p. (snd p, spec_weight ratios (fst p))) (enumerate 0 children)"

definition layout_of :: "'e flex_div \<Rightarrow> ('e rchild \<times> jsnum) list" where
  "layout_of d = map (\<lambda>c. (cell_child c, cell_flex c)) (div_cells d)"

subsection \<open>Characteristic equations\<close>

lemma div_cells_flex_container [layout_simps]:
  "div_cells (flex_container p) =
     map (flex_cell (resolved_ratios p)) (enumerate 0 (to_array (fc_children p)))"
  by (simp add: flex_container_def Let_def)

lemma div_class_flex_container [layout_simps]:
  "div_class (flex_container p) =
     ''flex w-full h-full '' @ direction_class (resolved_direction p) @ '' '' @ resolved_className p"
  by (simp add: flex_container_def Let_def)

lemma flex_cell_simps [simp, layout_simps]:
  "cell_key (flex_cell rs p) = fst p"
  "cell_flex (flex_cell rs p) = flex_of rs (fst p)"
  "cell_class (flex_cell rs p) = ''flex items-center justify-center''"
  "cell_child (flex_cell rs p) = snd p"
  by (simp_all add: flex_cell_def)

lemma flex_of_eq:
  "flex_of rs i = (if i < length rs \<and> js_truthy (rs ! i) then rs ! i else Fin 1)"
  by (simp add: flex_of_def js_array_get_def)

lemma flex_of_truthy: "js_truthy (flex_of rs i)"
  by (simp add: flex_of_eq)

lemma resolved_simps [simp, layout_simps]:
  "resolved_ratios (p\<lparr>fc_ratios := Some rs\<rparr>) = rs"
  "resolved_direction (p\<lparr>fc_direction := Some d\<rparr>) = d"
  "resolved_ratios (p\<lparr>fc_direction := x\<rparr>) = resolved_ratios p"
  "resolved_className (p\<lparr>fc_direction := x\<rparr>) = resolved_className p"
  "resolved_ratios \<lparr>fc_children = c, fc_direction = x, fc_ratios = Some rs, fc_className = y\<rparr> = rs"
  by (simp_all add: resolved_ratios_def resolved_direction_def resolved_className_def)

lemma length_div_cells [simp]:
  "length (div_cells (flex_container p)) = length (to_array (fc_children p))"
  by (simp add: div_cells_flex_container)

lemma nth_div_cells:
  "i < length (to_array (fc_children p)) \<Longrightarrow>
   div_cells (flex_container p) ! i = flex_cell (resolved_ratios p) (i, to_array (fc_children p) ! i)"
  by (simp add: div_cells_flex_container nth_enumerate_eq)

lemma flex_of_spec_weight:
  assumes "\<forall>r \<in> set rs. js_truthy r \<longrightarrow> spec_valid_weight r"
  shows "flex_of rs i = spec_weight rs i"
proof (cases "i < length rs")
  case True
  then have "rs ! i \<in> set rs" by simp
  with assms have "js_truthy (rs ! i) \<longleftrightarrow> spec_valid_weight (rs ! i)"
    by (cases "rs ! i") auto
  with True show ?thesis by (simp add: flex_of_eq spec_weight_def)
next
  case False
  then show ?thesis by (simp add: flex_of_eq spec_weight_def)
qed

lemma map_cell_flex_div_cells:
  "map cell_flex (div_cells (flex_container p)) =
     map (flex_of (resolved_ratios p)) [0..<length (to_array (fc_children p))]"
proof -
  have "map cell_flex (div_cells (flex_container p)) =
          map (\<lambda>q. flex_of (resolved_ratios p) (fst q)) (enumerate 0 (to_array (fc_children p)))"
    by (simp add: div_cells_flex_container comp_def)
  then show ?thesis by (simp only: map_enumerate_fst) simp
qed

subsection \<open>Properties of the component\<close>

text \<open>
  C1. FlexContainer keeps its children: the cells hold exactly the children of
  \<open>React.Children.toArray(children)\<close>, in input order, one cell per child.
\<close>

theorem flex_container_children:
  "map cell_child (div_cells (flex_container p)) = to_array (fc_children p)"
  by (simp add: div_cells_flex_container comp_def)

text \<open>
  C2. The weight of the \<open>i\<close>-th cell is \<open>ratios[i]\<close> when that entry exists and is
  truthy, and \<open>1\<close> otherwise (a missing entry, \<open>0\<close> or \<open>NaN\<close>).
\<close>

theorem flex_container_weights:
  "map cell_flex (div_cells (flex_container p)) =
     map (\<lambda>i. if i < length (resolved_ratios p) \<and> js_truthy (resolved_ratios p ! i)
               then resolved_ratios p ! i else Fin 1)
         [0..<length (to_array (fc_children p))]"
  by (simp add: map_cell_flex_div_cells flex_of_eq)

lemma map_layout_of_flex_container:
  "layout_of (flex_container p) =
     map (\<lambda>q. (snd q, flex_of (resolved_ratios p) (fst q))) (enumerate 0 (to_array (fc_children p)))"
  by (simp add: layout_of_def div_cells_flex_container comp_def)

lemma flex_of_append:
  "i < length rs \<Longrightarrow> flex_of (rs @ extra) i = flex_of rs i"
  by (simp add: flex_of_eq nth_append)

text \<open>
  C3. Refinement: whenever no supplied ratio is truthy without being a positive
  finite number (no negative and no infinite weight), the rendered container
  abstracts to the specification's layout of the flattened children.
\<close>

theorem flex_container_refines_spec:
  assumes "\<forall>r \<in> set (resolved_ratios p). js_truthy r \<longrightarrow> spec_valid_weight r"
  shows "layout_of (flex_container p) = spec_layout (to_array (fc_children p)) (resolved_ratios p)"
proof -
  from assms have "flex_of (resolved_ratios p) = spec_weight (resolved_ratios p)"
    by (intro ext flex_of_spec_weight)
  then show ?thesis
    by (simp add: map_layout_of_flex_container spec_layout_def)
qed

text \<open>Scenario A of the specification: three children, ratios \<open>[0.15, 0.85]\<close>.\<close>

theorem flex_container_refines_spec_witness:
  "layout_of (flex_container
     \<lparr>fc_children = jsx_children [RElem (1::nat), RElem 2, RElem 3], fc_direction = None,
      fc_ratios = Some [Fin (15/100), Fin (85/100)], fc_className = None\<rparr>)
   = [(CElem 1, Fin (15/100)), (CElem 2, Fin (85/100)), (CElem 3, Fin 1)]"
proof -
  let ?p = "\<lparr>fc_children = jsx_children [RElem (1::nat), RElem 2, RElem 3], fc_direction = None,
      fc_ratios = Some [Fin (15/100), Fin (85/100)], fc_className = None\<rparr>"
  have h: "\<forall>r \<in> set (resolved_ratios ?p). js_truthy r \<longrightarrow> spec_valid_weight r"
    by simp
  have "layout_of (flex_container ?p) = spec_layout (to_array (fc_children ?p)) (resolved_ratios ?p)"
    using flex_container_refines_spec [OF h] .
  then show ?thesis by (simp add: spec_layout_def spec_weight_def jsx_children_def)
qed

text \<open>
  C4. Where code and specification part: a negative ratio is truthy, so the code
  passes it to the style as the cell's \<open>flex\<close>, while the specification says a
  non-positive weight falls back to \<open>1\<close>.
\<close>

theorem flex_container_negative_weight:
  assumes "i < length (to_array (fc_children p))"
    and "i < length (resolved_ratios p)"
    and "resolved_ratios p ! i = Fin q" and "q < 0"
  shows "cell_flex (div_cells (flex_container p) ! i) = Fin q \<and> spec_weight (resolved_ratios p) i = Fin 1"
  using assms by (simp add: nth_div_cells flex_of_eq spec_weight_def)

theorem flex_container_negative_weight_witness:
  "cell_flex (div_cells (flex_container
     \<lparr>fc_children = RElem (0::nat), fc_direction = None, fc_ratios = Some [Fin (-1)], fc_className = None\<rparr>) ! 0)
     = Fin (-1)
   \<and> spec_weight [Fin (-1)] 0 = Fin 1"
  using flex_container_negative_weight [of 0
     "\<lparr>fc_children = RElem (0::nat), fc_direction = None, fc_ratios = Some [Fin (-1)], fc_className = None\<rparr>"
     "-1"]
  by simp

text \<open>
  C5. The cells' React keys are \<open>0, 1, ..., n-1\<close>: one per child, all distinct.
\<close>

theorem flex_container_keys:
  "map cell_key (div_cells (flex_container p)) = [0..<length (to_array (fc_children p))]
   \<and> distinct (map cell_key (div_cells (flex_container p)))"
proof -
  have "map cell_key (div_cells (flex_container p)) = [0..<length (to_array (fc_children p))]"
    by (simp add: div_cells_flex_container comp_def)
  then show ?thesis by simp
qed

text \<open>
  C6. No cell ever gets a falsy weight: every \<open>flex\<close> value is neither \<open>0\<close> nor
  \<open>NaN\<close>, whatever the ratios are.
\<close>

theorem flex_container_flex_truthy:
  "\<forall>c \<in> set (div_cells (flex_container p)). js_truthy (cell_flex c)"
  by (simp add: div_cells_flex_container flex_of_truthy)

text \<open>Scenario B: ratios \<open>[0, NaN]\<close> over two children give weights \<open>1, 1\<close>.\<close>

theorem flex_container_flex_truthy_witness:
  "list_all (\<lambda>c. js_truthy (cell_flex c)) (div_cells (flex_container
      \<lparr>fc_children = jsx_children [RElem (1::nat), RElem 2], fc_direction = None,
       fc_ratios = Some [Fin 0, NaN], fc_className = None\<rparr>))
   \<and> map cell_flex (div_cells (flex_container
      \<lparr>fc_children = jsx_children [RElem (1::nat), RElem 2], fc_direction = None,
       fc_ratios = Some [Fin 0, NaN], fc_className = None\<rparr>)) = [Fin 1, Fin 1]"
  using flex_container_flex_truthy [of
      "\<lparr>fc_children = jsx_children [RElem (1::nat), RElem 2], fc_direction = None,
       fc_ratios = Some [Fin 0, NaN], fc_className = None\<rparr>"]
  by (simp add: div_cells_flex_container flex_of_eq jsx_children_def list_all_iff)

text \<open>
  C7. The direction only chooses the class \<open>flex-row\<close> or \<open>flex-col\<close>: the cells,
  their order, keys and weights do not depend on it (scenario D).
\<close>

theorem flex_container_direction_independent:
  "div_cells (flex_container (p\<lparr>fc_direction := d\<rparr>)) = div_cells (flex_container p)
   \<and> div_class (flex_container (p\<lparr>fc_direction := Some Row\<rparr>)) =
       ''flex w-full h-full flex-row '' @ resolved_className p
   \<and> div_class (flex_container (p\<lparr>fc_direction := Some Column\<rparr>)) =
       ''flex w-full h-full flex-col '' @ resolved_className p"
  by (simp add: div_cells_flex_container div_class_flex_container direction_class_def)

text \<open>
  C8. Ratios past the last child are never read: appending entries to a ratio
  list that already covers every child changes no cell (scenario C).
\<close>

theorem flex_container_extra_ratios:
  assumes "length (to_array (fc_children p)) \<le> length rs"
  shows "div_cells (flex_container (p\<lparr>fc_ratios := Some (rs @ extra)\<rparr>)) =
         div_cells (flex_container (p\<lparr>fc_ratios := Some rs\<rparr>))"
proof -
  have "\<forall>q \<in> set (enumerate 0 (to_array (fc_children p))).
          flex_cell (rs @ extra) q = flex_cell rs q"
    using assms by (auto simp: in_set_enumerate_eq flex_cell_def flex_of_append)
  then show ?thesis by (simp add: div_cells_flex_container)
qed

theorem flex_container_extra_ratios_witness:
  "length (to_array (RElem (1::nat))) \<le> length [Fin (4/10)] \<and>
   div_cells (flex_container
     \<lparr>fc_children = RElem (1::nat), fc_direction = None, fc_ratios = Some [Fin (4/10), Fin (6/10)],
      fc_className = None\<rparr>) =
   [\<lparr>cell_key = 0, cell_flex = Fin (4/10), cell_class = ''flex items-center justify-center'',
     cell_child = CElem 1\<rparr>]"
proof -
  let ?p = "\<lparr>fc_children = RElem (1::nat), fc_direction = None, fc_ratios = None,
      fc_className = None\<rparr>"
  have h: "length (to_array (fc_children ?p)) \<le> length [Fin (4/10)]" by simp
  have "div_cells (flex_container (?p\<lparr>fc_ratios := Some ([Fin (4/10)] @ [Fin (6/10)])\<rparr>)) =
        div_cells (flex_container (?p\<lparr>fc_ratios := Some [Fin (4/10)]\<rparr>))"
    using flex_container_extra_ratios [OF h] .
  then show ?thesis by (simp add: div_cells_flex_container flex_cell_def flex_of_eq)
qed

end
