(* ===== verification/Scene.thy ===== *)
theory Scene
  imports FlexContainer "HOL-Library.Sublist"
begin

text \<open>
  The scene description language the two scene files are written in, and its
  rendering at a frame. A scene is the JSX tree of a composition: Remotion
  \<open>Sequence\<close>s (time windows), FlexContainers, host elements and the
  presentational components (tag, class string, React key, animated style,
  children), text, and JavaScript arrays produced by \<open>.map\<close>. Static attributes
  (sizes, fonts, SVG paths) are not kept; animated style values are expressions
  over the spring runtime (\<open>sexpr\<close>).

  Both scene files define the same closure
  \<open>getSpringValue(startFrame, delay) = spring({fps, frame: frame - startFrame - delay, ...})\<close>;
  the runtime's \<open>spring\<close> with the fixed \<open>fps\<close> and config is the parameter
  \<open>spr\<close> of every rendering function. The runtime's contract is two predicates:
  the spring rests at 0 up to its start (\<open>spring_rest\<close>), and, being overdamped
  (damping 100 against a critical 2\<surd>200), stays in \<open>[0, 1]\<close> (\<open>spring_unit\<close>).

  \<open>render spr f t n\<close> renders node \<open>n\<close> at absolute frame \<open>f\<close> (the frame the
  scene component read with \<open>useCurrentFrame()\<close> outside any Sequence, used by
  every style expression) and at frame \<open>t\<close> relative to the enclosing Sequence.
  A Sequence with \<open>from\<close> shows its children iff \<open>from \<le> t\<close> and gives them the
  relative frame \<open>t - from\<close>; no Sequence in the sources has a
  \<open>durationInFrames\<close>, so none ever ends. A FlexContainer renders through
  \<open>flex_container\<close> of theory FlexContainer, its children rendered first: the
  component treats them as opaque values.

  \<open>mounts\<close> is the static counterpart: every element with its styles and the
  absolute start frames of the Sequences around it. The lemma
  \<open>render_vels_mounts\<close> proves that the elements rendered at a frame are exactly
  the mounted ones, in document order; it carries the soundness of the static
  checks over the mount table: \<open>fades_in\<close> (every
  animated opacity is 0 when its element appears) and \<open>styles_within\<close> (every
  style value stays in a given interval, by the interval analysis \<open>sexpr_range\<close>).
  Two further analyses follow the tree itself: the weights the rendered
  FlexContainers carry against those their props declare (\<open>render_flex_weights\<close>),
  and the cue points of a scene (\<open>seq_starts\<close>, \<open>scene_spring_starts\<close>).
\<close>

definition get_spring_value :: "(frame \<Rightarrow> rat) \<Rightarrow> frame \<Rightarrow> frame \<Rightarrow> frame \<Rightarrow> rat" where
  "get_spring_value spring frame startFrame delay = spring (frame - startFrame - delay)"

datatype sexpr =
    SConst rat
  | SSpring frame frame
  | SAffine rat rat sexpr
  | SBefore frame rat sexpr

datatype style_prop = POpacity | PTranslateY | PScale

type_synonym style = "style_prop \<times> sexpr"

datatype node =
    Seq frame "node list"
  | Flex "direction option" "jsnum list option" "string option" "node list"
  | El string string "int option" "style list" "node list"
  | Txt string
  | NumTxt rat
  | Arr "node list"

datatype vnode =
    VEl string string "int option" "(style_prop \<times> rat) list" "vnode list"
  | VTxt string
  | VNum rat
  | VFlex string "(nat \<times> jsnum \<times> vnode list) list"

fun eval_sexpr :: "(frame \<Rightarrow> rat) \<Rightarrow> frame \<Rightarrow> sexpr \<Rightarrow> rat" where
  "eval_sexpr spr f (SConst c) = c"
| "eval_sexpr spr f (SSpring s d) = get_spring_value spr f s d"
| "eval_sexpr spr f (SAffine a b e) = a + b * eval_sexpr spr f e"
| "eval_sexpr spr f (SBefore t c e) = (if f < t then c else eval_sexpr spr f e)"

definition eval_style :: "(frame \<Rightarrow> rat) \<Rightarrow> frame \<Rightarrow> style \<Rightarrow> style_prop \<times> rat" where
  "eval_style spr f st = (fst st, eval_sexpr spr f (snd st))"

fun child_view :: "vnode list rchild \<Rightarrow> vnode list" where
  "child_view (CElem vs) = vs"
| "child_view (CStr s) = [VTxt s]"
| "child_view (CNum (Fin q)) = [VNum q]"
| "child_view (CNum _) = []"

definition flex_view :: "vnode list flex_div \<Rightarrow> vnode" where
  "flex_view d = VFlex (div_class d)
     (map (\<lambda>c. (cell_key c, cell_flex c, child_view (cell_child c))) (div_cells d))"

fun render :: "(frame \<Rightarrow> rat) \<Rightarrow> frame \<Rightarrow> frame \<Rightarrow> node \<Rightarrow> vnode list"
and render_child :: "(frame \<Rightarrow> rat) \<Rightarrow> frame \<Rightarrow> frame \<Rightarrow> node \<Rightarrow> vnode list rnode" where
  "render spr f t (Seq from cs) =
     (if from \<le> t then concat (map (render spr f (t - from)) cs) else [])"
| "render spr f t (Flex d rs cls cs) =
     [flex_view (flex_container \<lparr>fc_children = jsx_children (map (render_child spr f t) cs),
        fc_direction = d, fc_ratios = rs, fc_className = cls\<rparr>)]"
| "render spr f t (El tag cls k st cs) =
     [VEl tag cls k (map (eval_style spr f) st) (concat (map (render spr f t) cs))]"
| "render spr f t (Txt s) = [VTxt s]"
| "render spr f t (NumTxt q) = [VNum q]"
| "render spr f t (Arr cs) = concat (map (render spr f t) cs)"
| "render_child spr f t (Arr cs) = RArr (map (render_child spr f t) cs)"
| "render_child spr f t (Txt s) = RStr s"
| "render_child spr f t (NumTxt q) = RNum (Fin q)"
| "render_child spr f t (Seq from cs) = RElem (render spr f t (Seq from cs))"
| "render_child spr f t (Flex d rs cls cs) = RElem (render spr f t (Flex d rs cls cs))"
| "render_child spr f t (El tag cls k st cs) = RElem (render spr f t (El tag cls k st cs))"

record mount =
  m_tag :: string
  m_class :: string
  m_key :: "int option"
  m_style :: "style list"
  m_gates :: "frame list"

fun mounts :: "frame \<Rightarrow> frame list \<Rightarrow> node \<Rightarrow> mount list" where
  "mounts b gs (Seq from cs) = concat (map (mounts (b + from) (gs @ [b + from])) cs)"
| "mounts b gs (Flex d rs cls cs) = concat (map (mounts b gs) cs)"
| "mounts b gs (El tag cls k st cs) =
     \<lparr>m_tag = tag, m_class = cls, m_key = k, m_style = st, m_gates = gs\<rparr>
     # concat (map (mounts b gs) cs)"
| "mounts b gs (Txt s) = []"
| "mounts b gs (NumTxt q) = []"
| "mounts b gs (Arr cs) = concat (map (mounts b gs) cs)"

definition mounted_at :: "frame \<Rightarrow> mount \<Rightarrow> bool" where
  "mounted_at f m = list_all (\<lambda>g. g \<le> f) (m_gates m)"

type_synonym vel = "string \<times> string \<times> int option \<times> (style_prop \<times> rat) list"

fun vels :: "vnode \<Rightarrow> vel list" where
  "vels (VEl tag cls k ps cs) = (tag, cls, k, ps) # concat (map vels cs)"
| "vels (VTxt s) = []"
| "vels (VNum q) = []"
| "vels (VFlex c cells) = concat (map (\<lambda>c. concat (map vels (snd (snd c)))) cells)"

definition spring_rest :: "(frame \<Rightarrow> rat) \<Rightarrow> bool" where
  "spring_rest spr \<longleftrightarrow> (\<forall>f \<le> 0. spr f = 0)"

definition spring_unit :: "(frame \<Rightarrow> rat) \<Rightarrow> bool" where
  "spring_unit spr \<longleftrightarrow> (\<forall>f. 0 \<le> spr f \<and> spr f \<le> 1)"

text \<open>
  The value a style expression has at frame \<open>f0\<close> whenever every spring it reads
  is still at rest there (\<open>None\<close> when some spring may already have moved):
  a static check, sound by \<open>eval_at_rest\<close>.
\<close>

fun value_at_rest :: "frame \<Rightarrow> sexpr \<Rightarrow> rat option" where
  "value_at_rest f0 (SConst c) = Some c"
| "value_at_rest f0 (SSpring s d) = (if f0 \<le> s + d then Some 0 else None)"
| "value_at_rest f0 (SAffine a b e) = map_option (\<lambda>v. a + b * v) (value_at_rest f0 e)"
| "value_at_rest f0 (SBefore t c e) = (if f0 < t then Some c else value_at_rest f0 e)"

text \<open>The frames at which the springs an expression reads start moving.\<close>

fun spring_starts :: "sexpr \<Rightarrow> frame list" where
  "spring_starts (SConst c) = []"
| "spring_starts (SSpring s d) = [s + d]"
| "spring_starts (SAffine a b e) = spring_starts e"
| "spring_starts (SBefore t c e) = spring_starts e"

text \<open>
  The shape of a FlexContainer's children as \<open>React.Children.toArray\<close> sees it,
  and every FlexContainer of a scene with its ratios and its number of children.
\<close>

fun child_shape :: "node \<Rightarrow> unit rnode" where
  "child_shape (Arr cs) = RArr (map child_shape cs)"
| "child_shape (Txt s) = RStr s"
| "child_shape (NumTxt q) = RNum (Fin q)"
| "child_shape _ = RElem ()"

fun flex_uses :: "node \<Rightarrow> (jsnum list option \<times> nat) list" where
  "flex_uses (Seq fr cs) = concat (map flex_uses cs)"
| "flex_uses (Flex d rs cls cs) =
     (rs, length (to_array (jsx_children (map child_shape cs)))) # concat (map flex_uses cs)"
| "flex_uses (El tag cls k st cs) = concat (map flex_uses cs)"
| "flex_uses (Arr cs) = concat (map flex_uses cs)"
| "flex_uses _ = []"

definition mount_start :: "mount \<Rightarrow> frame" where
  "mount_start m = fold max (m_gates m) 0"

text \<open>
  The static no-pop-in check: every animated opacity of the scene is at rest (and
  equal to 0) at the frame its element is mounted.
\<close>

definition fades_in :: "node \<Rightarrow> bool" where
  "fades_in n = list_all (\<lambda>m. list_all (\<lambda>st. fst st = POpacity \<longrightarrow>
       value_at_rest (mount_start m) (snd st) = Some 0) (m_style m)) (mounts 0 [] n)"

definition mount_view :: "(frame \<Rightarrow> rat) \<Rightarrow> frame \<Rightarrow> mount \<Rightarrow> vel" where
  "mount_view spr f m = (m_tag m, m_class m, m_key m, map (eval_style spr f) (m_style m))"

text \<open>
  The interval of values a style expression can take while every spring stays in
  \<open>[0, 1]\<close>, with the static check that every style property stays in an
  interval \<open>bnd p\<close> given per property.
\<close>

fun sexpr_range :: "sexpr \<Rightarrow> rat \<times> rat" where
  "sexpr_range (SConst c) = (c, c)"
| "sexpr_range (SSpring s d) = (0, 1)"
| "sexpr_range (SAffine a b e) =
     (let r = sexpr_range e in
      if 0 \<le> b then (a + b * fst r, a + b * snd r) else (a + b * snd r, a + b * fst r))"
| "sexpr_range (SBefore t c e) = (let r = sexpr_range e in (min c (fst r), max c (snd r)))"

definition styles_within :: "(style_prop \<Rightarrow> rat \<times> rat) \<Rightarrow> node \<Rightarrow> bool" where
  "styles_within bnd n = list_all (\<lambda>m. list_all (\<lambda>st.
       fst (bnd (fst st)) \<le> fst (sexpr_range (snd st)) \<and> snd (sexpr_range (snd st)) \<le> snd (bnd (fst st)))
       (m_style m)) (mounts 0 [] n)"

text \<open>
  The intervals the scenes are meant to keep their styles in: opacity and scale
  between 0 and 1 (an element never overshoots its final size), and a vertical
  slide-in offset between 0 and \<open>h\<close> pixels.
\<close>

fun style_bounds :: "rat \<Rightarrow> style_prop \<Rightarrow> rat \<times> rat" where
  "style_bounds h POpacity = (0, 1)"
| "style_bounds h PScale = (0, 1)"
| "style_bounds h PTranslateY = (0, h)"

text \<open>
  The cell weights of every FlexContainer in a rendered tree, in document order,
  and the weights a declared FlexContainer gives its children: \<open>ratios[i] || 1\<close>
  for each of the children \<open>React.Children.toArray\<close> counts.
\<close>

fun vflex_weights :: "vnode \<Rightarrow> jsnum list list" where
  "vflex_weights (VEl tag cls k ps cs) = concat (map vflex_weights cs)"
| "vflex_weights (VTxt s) = []"
| "vflex_weights (VNum q) = []"
| "vflex_weights (VFlex c cells) =
     map (\<lambda>c. fst (snd c)) cells # concat (map (\<lambda>c. concat (map vflex_weights (snd (snd c)))) cells)"

definition declared_weights :: "jsnum list option \<times> nat \<Rightarrow> jsnum list" where
  "declared_weights u = map (flex_of (case fst u of None \<Rightarrow> [] | Some rs \<Rightarrow> rs)) [0..<snd u]"

text \<open>
  The absolute start frames of every Sequence of a scene, and the frames at which
  the springs its styles read start moving: the scene's cue points.
\<close>

fun seq_starts :: "frame \<Rightarrow> node \<Rightarrow> frame list" where
  "seq_starts b (Seq from cs) = (b + from) # concat (map (seq_starts (b + from)) cs)"
| "seq_starts b (Flex d rs cls cs) = concat (map (seq_starts b) cs)"
| "seq_starts b (El tag cls k st cs) = concat (map (seq_starts b) cs)"
| "seq_starts b (Arr cs) = concat (map (seq_starts b) cs)"
| "seq_starts b _ = []"

definition scene_spring_starts :: "node \<Rightarrow> frame list" where
  "scene_spring_starts n =
     concat (map (\<lambda>m. concat (map (\<lambda>st. spring_starts (snd st)) (m_style m))) (mounts 0 [] n))"

lemma child_view_render_child:
  "concat (map child_view (to_array (render_child spr f t n))) = render spr f t n"
proof (induction n)
  case (Arr cs)
  then show ?case by (induction cs) auto
qed simp_all

lemma mounts_gates_prefix:
  "m \<in> set (mounts b gs n) \<Longrightarrow> \<exists>ys. m_gates m = gs @ ys"
proof (induction n arbitrary: b gs)
  case (Seq fr cs)
  then obtain c where "c \<in> set cs" "m \<in> set (mounts (b + fr) (gs @ [b + fr]) c)" by auto
  with Seq.IH obtain ys where "m_gates m = (gs @ [b + fr]) @ ys" by blast
  then show ?case by auto
qed auto

lemma concat_child_view_render_child:
  "concat (map (\<lambda>x. concat (map g (child_view x))) (to_array (render_child spr f t n))) =
   concat (map g (render spr f t n))"
proof -
  have "concat (map g (concat (map child_view (to_array (render_child spr f t n))))) =
        concat (map g (render spr f t n))"
    by (simp only: child_view_render_child)
  then show ?thesis by (simp add: map_concat)
qed

lemma concat_map_flex_cells:
  "concat (map (\<lambda>c. concat (map g (child_view (cell_child c))))
     (div_cells (flex_container \<lparr>fc_children = jsx_children (map (render_child spr f t) cs),
        fc_direction = d, fc_ratios = rs, fc_className = cls\<rparr>))) =
   concat (map (\<lambda>c. concat (map g (render spr f t c))) cs)"
proof -
  let ?p = "\<lparr>fc_children = jsx_children (map (render_child spr f t) cs),
        fc_direction = d, fc_ratios = rs, fc_className = cls\<rparr>"
  let ?h = "\<lambda>x. concat (map g (child_view x))"
  have "concat (map (\<lambda>c. ?h (cell_child c)) (div_cells (flex_container ?p))) =
        concat (map ?h (map cell_child (div_cells (flex_container ?p))))"
    by (simp add: comp_def)
  also have "map cell_child (div_cells (flex_container ?p)) =
             concat (map (\<lambda>c. to_array (render_child spr f t c)) cs)"
    by (simp add: div_cells_flex_container comp_def)
  also have "concat (map ?h (concat (map (\<lambda>c. to_array (render_child spr f t c)) cs))) =
             concat (map (\<lambda>c. concat (map ?h (to_array (render_child spr f t c)))) cs)"
    by (simp add: map_concat)
  also have "\<dots> = concat (map (\<lambda>c. concat (map g (render spr f t c))) cs)"
    by (simp only: concat_child_view_render_child)
  finally show ?thesis .
qed

lemma vels_flex_view:
  "vels (flex_view (flex_container \<lparr>fc_children = jsx_children (map (render_child spr f t) cs),
        fc_direction = d, fc_ratios = rs, fc_className = cls\<rparr>)) =
   concat (map (\<lambda>c. concat (map vels (render spr f t c))) cs)"
  by (simp add: flex_view_def comp_def concat_map_flex_cells [where g = vels, simplified comp_def])

text \<open>
  Rendering a subtree whose enclosing Sequences start at the absolute frames
  \<open>gs\<close> (all passed) and whose local frame is \<open>f - b\<close> gives the mounted
  entries of its mount table; the induction runs over the node.
\<close>

lemma render_vels_mounts:
  "list_all (\<lambda>g. g \<le> f) gs \<Longrightarrow>
   concat (map vels (render spr f (f - b) n)) =
   map (mount_view spr f) (filter (mounted_at f) (mounts b gs n))"
proof (induction n arbitrary: b gs)
  case (Seq fr cs)
  show ?case
  proof (cases "fr \<le> f - b")
    case True
    with Seq.prems have g: "list_all (\<lambda>g. g \<le> f) (gs @ [b + fr])" by simp
    have "\<And>c. c \<in> set cs \<Longrightarrow> concat (map vels (render spr f (f - b - fr) c)) =
            map (mount_view spr f) (filter (mounted_at f) (mounts (b + fr) (gs @ [b + fr]) c))"
      using Seq.IH [OF _ g] by (simp add: algebra_simps)
    with True show ?thesis by (simp add: map_concat filter_concat comp_def cong: map_cong)
  next
    case False
    have "\<not> mounted_at f m" if mem: "m \<in> set (mounts (b + fr) (gs @ [b + fr]) c)" for m c
    proof -
      obtain ys where "m_gates m = (gs @ [b + fr]) @ ys"
        using mounts_gates_prefix [OF mem] by blast
      moreover have "\<not> b + fr \<le> f" using False by simp
      ultimately show ?thesis by (auto simp: mounted_at_def list_all_iff)
    qed
    with False show ?thesis
      by (simp add: filter_concat comp_def filter_False)
  qed
next
  case (Flex d rs cls cs)
  then show ?case
    by (simp add: vels_flex_view map_concat filter_concat comp_def cong: map_cong)
next
  case (El tag cls k st cs)
  then show ?case
    by (simp add: mounted_at_def mount_view_def map_concat filter_concat comp_def cong: map_cong)
next
  case (Arr cs)
  then show ?case
    by (simp add: map_concat filter_concat comp_def cong: map_cong)
qed simp_all

lemmas render_vels_mounts_root = render_vels_mounts [where b = 0 and gs = "[]", simplified]

lemma get_spring_value_rest:
  "spring_rest spr \<Longrightarrow> f \<le> s + d \<Longrightarrow> get_spring_value spr f s d = 0"
  by (simp add: spring_rest_def get_spring_value_def)

lemma eval_at_rest:
  "spring_rest spr \<Longrightarrow> value_at_rest f e = Some v \<Longrightarrow> eval_sexpr spr f e = v"
  by (induction e arbitrary: v) (auto simp: get_spring_value_rest split: if_splits)

lemma fold_max_ge: "x \<le> (z::int) \<Longrightarrow> x \<le> fold max gs z"
  by (induction gs arbitrary: z) auto

lemma fold_max_mem_ge: "g \<in> set gs \<Longrightarrow> g \<le> fold max gs (z::int)"
proof (induction gs arbitrary: z)
  case (Cons a gs)
  then show ?case by (auto intro: fold_max_ge)
qed simp

lemma fold_max_le: "z \<le> f \<Longrightarrow> list_all (\<lambda>g. g \<le> f) gs \<Longrightarrow> fold max gs (z::int) \<le> f"
  by (induction gs arbitrary: z) auto

lemma mounted_at_start:
  assumes "0 \<le> f"
  shows "mounted_at f m \<longleftrightarrow> mount_start m \<le> f"
proof
  assume "mounted_at f m"
  with assms show "mount_start m \<le> f"
    unfolding mounted_at_def mount_start_def by (rule fold_max_le)
next
  assume le: "mount_start m \<le> f"
  have "g \<le> f" if "g \<in> set (m_gates m)" for g
    using fold_max_mem_ge [OF that, of 0] le by (simp add: mount_start_def)
  then show "mounted_at f m" by (simp add: mounted_at_def list_all_iff)
qed

lemma mount_start_nonneg: "0 \<le> mount_start m"
  by (simp add: mount_start_def fold_max_ge)

lemma fades_in_sound:
  assumes "fades_in n" and "spring_rest spr" and "m \<in> set (mounts 0 [] n)"
    and "(POpacity, e) \<in> set (m_style m)"
  shows "mount_view spr (mount_start m) m
           \<in> set (concat (map vels (render spr (mount_start m) (mount_start m) n)))
         \<and> eval_sexpr spr (mount_start m) e = 0"
proof
  let ?f = "mount_start m"
  have "mounted_at ?f m" by (simp add: mounted_at_start mount_start_nonneg)
  with assms(3) have "mount_view spr ?f m \<in>
      set (map (mount_view spr ?f) (filter (mounted_at ?f) (mounts 0 [] n)))"
    by simp
  then show "mount_view spr ?f m \<in> set (concat (map vels (render spr ?f ?f n)))"
    by (simp only: render_vels_mounts_root)
  from assms(1,3,4) have "value_at_rest ?f e = Some 0"
    by (fastforce simp: fades_in_def list_all_iff)
  with assms(2) show "eval_sexpr spr ?f e = 0" by (rule eval_at_rest)
qed

lemma length_to_array_render_child:
  "length (to_array (render_child spr f t n)) = length (to_array (child_shape n))"
proof (induction n)
  case (Arr cs)
  then show ?case by (induction cs) auto
qed simp_all

lemma length_to_array_jsx_render_child:
  "length (to_array (jsx_children (map (render_child spr f t) cs))) =
   length (to_array (jsx_children (map child_shape cs)))"
  by (simp add: length_concat comp_def length_to_array_render_child)

lemma eval_in_range:
  assumes "spring_unit spr"
  shows "fst (sexpr_range e) \<le> eval_sexpr spr f e \<and> eval_sexpr spr f e \<le> snd (sexpr_range e)"
proof (induction e)
  case (SSpring s d)
  from assms show ?case by (simp add: spring_unit_def get_spring_value_def)
next
  case (SAffine a b e)
  show ?case
  proof (cases "0 \<le> b")
    case True
    with SAffine have "b * fst (sexpr_range e) \<le> b * eval_sexpr spr f e"
      "b * eval_sexpr spr f e \<le> b * snd (sexpr_range e)"
      by (simp_all add: mult_left_mono)
    with True show ?thesis by (simp add: Let_def)
  next
    case False
    with SAffine have "b * snd (sexpr_range e) \<le> b * eval_sexpr spr f e"
      "b * eval_sexpr spr f e \<le> b * fst (sexpr_range e)"
      by (simp_all add: mult_left_mono_neg)
    with False show ?thesis by (simp add: Let_def)
  qed
next
  case (SBefore t c e)
  then show ?case by (auto simp: Let_def min_le_iff_disj le_max_iff_disj)
qed simp

lemma styles_within_sound:
  assumes "styles_within bnd n" and "spring_unit spr"
    and "v \<in> set (concat (map vels (render spr f f n)))"
    and "(p, x) \<in> set (snd (snd (snd v)))"
  shows "fst (bnd p) \<le> x \<and> x \<le> snd (bnd p)"
proof -
  from assms(3) obtain m where m: "m \<in> set (mounts 0 [] n)" and v: "v = mount_view spr f m"
    unfolding render_vels_mounts_root by auto
  from assms(4) v obtain e where e: "(p, e) \<in> set (m_style m)" and x: "x = eval_sexpr spr f e"
    by (auto simp: mount_view_def eval_style_def)
  from assms(1) m e have "fst (bnd p) \<le> fst (sexpr_range e)" "snd (sexpr_range e) \<le> snd (bnd p)"
    by (fastforce simp: styles_within_def list_all_iff)+
  with eval_in_range [OF assms(2), of e f] x show ?thesis by linarith
qed

lemma subseq_concat_map:
  "(\<And>x. x \<in> set xs \<Longrightarrow> subseq (F x) (G x)) \<Longrightarrow> subseq (concat (map F xs)) (concat (map G xs))"
  by (induction xs) (simp_all add: list_emb_append_mono)

lemma render_flex_weights:
  "subseq (concat (map vflex_weights (render spr f t n))) (map declared_weights (flex_uses n))"
proof (induction n arbitrary: t)
  case (Seq fr cs)
  then show ?case by (auto simp: comp_def map_concat intro!: subseq_concat_map)
next
  case (Flex d rs cls cs)
  let ?p = "\<lparr>fc_children = jsx_children (map (render_child spr f t) cs),
        fc_direction = d, fc_ratios = rs, fc_className = cls\<rparr>"
  have w: "map cell_flex (div_cells (flex_container ?p)) =
           declared_weights (rs, length (to_array (jsx_children (map child_shape cs))))"
    by (simp add: map_cell_flex_div_cells declared_weights_def resolved_ratios_def
        length_to_array_jsx_render_child del: to_array_jsx_children)
  have "subseq (concat (map (\<lambda>c. concat (map vflex_weights (render spr f t c))) cs))
               (concat (map (\<lambda>c. map declared_weights (flex_uses c)) cs))"
    using Flex by (intro subseq_concat_map) simp
  with w show ?case
    by (simp add: flex_view_def comp_def concat_map_flex_cells [where g = vflex_weights, simplified comp_def] map_concat)
next
  case (El tag cls k st cs)
  then show ?case by (auto simp: comp_def map_concat intro!: subseq_concat_map)
next
  case (Arr cs)
  then show ?case by (auto simp: comp_def map_concat intro!: subseq_concat_map)
qed simp_all

lemma fold_max_in: "fold max gs (z::int) \<in> insert z (set gs)"
  by (induction gs arbitrary: z) (auto simp: max_def)

lemma mounts_gates_seq_starts:
  "m \<in> set (mounts b gs n) \<Longrightarrow> set (m_gates m) \<subseteq> set gs \<union> set (seq_starts b n)"
proof (induction n arbitrary: b gs)
  case (Seq fr cs)
  then obtain c where "c \<in> set cs" "m \<in> set (mounts (b + fr) (gs @ [b + fr]) c)" by auto
  with Seq.IH show ?case by fastforce
qed fastforce+

lemma mount_start_seq_starts:
  "m \<in> set (mounts 0 [] n) \<Longrightarrow> mount_start m \<in> insert 0 (set (seq_starts 0 n))"
  using fold_max_in [of "m_gates m" 0] mounts_gates_seq_starts [of m 0 "[]" n]
  by (auto simp: mount_start_def)

lemma filter_map_mount_view:
  "filter P (map (mount_view spr f) ms) = map (mount_view spr f) (filter (\<lambda>m. P (mount_view spr f m)) ms)"
  by (simp add: filter_map comp_def)

end
