(* ===== verification/ChoosingTheRightScale.thy ===== *)
theory ChoosingTheRightScale
  imports Scene
begin

text \<open>
  The composition ChoosingTheRightScale
  (src/src/remotion/MyComp/ChoosingTheRightScale.tsx): its timing table (voiceover
  timestamps in seconds turned into frames with \<open>Math.round(s * fps)\<close>), the
  presentational components StarSymbol, PictureGraphExample and ScaleGuideline,
  the three guideline data sets and the example data, and the JSX tree of the
  component as a \<open>node\<close> of theory Scene. The frame rate is the parameter
  \<open>fps\<close> (\<open>useVideoConfig().fps\<close>, VIDEO_FPS of the registry).
\<close>

record crs_timings =
  pickScale :: frame
  smallNumbers :: frame
  mediumNumbers :: frame
  largeNumbers :: frame
  letsExample :: frame
  goodScale :: frame
  scaleOfFive :: frame

definition crs_timings_of :: "int \<Rightarrow> crs_timings" where
  "crs_timings_of fps =
     \<lparr>pickScale = js_round (2319/1000 * of_int fps),
      smallNumbers = js_round (7139/1000 * of_int fps),
      mediumNumbers = js_round (1342/100 * of_int fps),
      largeNumbers = js_round (20619/1000 * of_int fps),
      letsExample = js_round (28019/1000 * of_int fps),
      goodScale = js_round (3584/100 * of_int fps),
      scaleOfFive = js_round (3952/100 * of_int fps)\<rparr>"

text \<open>The table's entries in declaration order, and the products it rounds.\<close>

definition crs_timing_list :: "crs_timings \<Rightarrow> frame list" where
  "crs_timing_list t = [pickScale t, smallNumbers t, mediumNumbers t, largeNumbers t,
                        letsExample t, goodScale t, scaleOfFive t]"

definition crs_voiceover_seconds :: "seconds list" where
  "crs_voiceover_seconds = [2319/1000, 7139/1000, 1342/100, 20619/1000, 28019/1000, 3584/100, 3952/100]"

subsection \<open>Presentational components\<close>

definition star_symbol :: "int option \<Rightarrow> string \<Rightarrow> node" where
  "star_symbol key className =
     El ''svg'' (''text-yellow-400 '' @ className) key [] [El ''path'' [] None [] []]"

record example_row =
  ex_value :: int
  ex_stars :: nat

definition picture_graph_example :: "example_row list \<Rightarrow> int \<Rightarrow> node" where
  "picture_graph_example data scale =
     El ''div'' ''bg-gray-50 p-3 rounded-lg mb-3'' None []
       [Arr (map (\<lambda>p. El ''div'' ''flex items-center justify-between mb-2 text-sm'' (Some (int (fst p))) []
                    [El ''span'' ''font-medium w-6'' None [] [NumTxt (of_int (ex_value (snd p)))],
                     El ''div'' ''flex'' None []
                       [Arr (map (\<lambda>starIndex. star_symbol (Some (int starIndex)) ''mr-1'')
                               [0..<ex_stars (snd p)])]])
                 (enumerate 0 data)),
        El ''div'' ''text-center mt-3 pt-2 border-t border-gray-300'' None []
          [El ''span'' ''text-xs font-medium text-blue-600'' None []
             [Txt ''Scale: (star) = '', NumTxt (of_int scale), Txt '' items'']]]"

record guideline =
  g_category :: string
  g_range :: string
  g_recommendation :: string
  g_bgColor :: string
  g_borderColor :: string
  g_textColor :: string
  g_examples :: "example_row list"
  g_scale :: int

definition scale_guideline :: "guideline \<Rightarrow> sexpr \<Rightarrow> node" where
  "scale_guideline g opacity =
     El ''div'' (''w-full h-full '' @ g_bgColor g @ '' '' @ g_borderColor g
                 @ '' border-2 rounded-xl p-4 mx-2 flex flex-col'') None [(POpacity, opacity)]
       [El ''div'' ''text-center mb-4'' None []
          [El ''h3'' (''text-xl font-bold '' @ g_textColor g @ '' mb-1'') None [] [Txt (g_category g)],
           El ''p'' (''text-sm '' @ g_textColor g @ '' mb-2'') None [] [Txt (g_range g)],
           El ''p'' (''text-base font-semibold '' @ g_textColor g) None [] [Txt (g_recommendation g)]],
        El ''div'' ''flex-1'' None [] [picture_graph_example (g_examples g) (g_scale g)]]"

subsection \<open>The data of the three guidelines and of the example\<close>

definition small_guideline :: guideline where
  "small_guideline =
     \<lparr>g_category = ''Small Numbers'', g_range = ''Under 20'', g_recommendation = ''Scale: 1 or 2'',
      g_bgColor = ''bg-white'', g_borderColor = ''border-blue-300'', g_textColor = ''text-blue-800'',
      g_examples = [\<lparr>ex_value = 6, ex_stars = 3\<rparr>, \<lparr>ex_value = 10, ex_stars = 5\<rparr>,
                    \<lparr>ex_value = 8, ex_stars = 4\<rparr>],
      g_scale = 2\<rparr>"

definition medium_guideline :: guideline where
  "medium_guideline =
     \<lparr>g_category = ''Medium Numbers'', g_range = ''20 - 50'', g_recommendation = ''Scale: 5 or 10'',
      g_bgColor = ''bg-white'', g_borderColor = ''border-blue-300'', g_textColor = ''text-blue-800'',
      g_examples = [\<lparr>ex_value = 20, ex_stars = 4\<rparr>, \<lparr>ex_value = 25, ex_stars = 5\<rparr>,
                    \<lparr>ex_value = 10, ex_stars = 2\<rparr>],
      g_scale = 5\<rparr>"

definition large_guideline :: guideline where
  "large_guideline =
     \<lparr>g_category = ''Large Numbers'', g_range = ''Over 50'', g_recommendation = ''Scale: 10, 20, or more'',
      g_bgColor = ''bg-white'', g_borderColor = ''border-orange-300'', g_textColor = ''text-blue-800'',
      g_examples = [\<lparr>ex_value = 80, ex_stars = 4\<rparr>, \<lparr>ex_value = 100, ex_stars = 5\<rparr>,
                    \<lparr>ex_value = 40, ex_stars = 2\<rparr>],
      g_scale = 20\<rparr>"

text \<open>
  The example data (four values in a grid) and the solution cards
  \<open>v \<div> 5 = q symbols\<close>, as (value, divisor, symbols) triples.
\<close>

definition crs_example_values :: "int list" where
  "crs_example_values = [25, 30, 15, 20]"

definition crs_solution_rows :: "(int \<times> int \<times> int) list" where
  "crs_solution_rows = [(25, 5, 5), (30, 5, 6), (15, 5, 3), (20, 5, 4)]"

subsection \<open>The component's JSX tree\<close>

text \<open>
  \<open>sv s\<close> is \<open>getSpringValue(s)\<close> (delay 0). The guideline opacities are
  \<open>frame < t ? 0 : getSpringValue(t)\<close>. Text in the emoji spans is written as words.
\<close>

definition crs_example_cell :: "int \<Rightarrow> node" where
  "crs_example_cell v =
     El ''div'' ''bg-purple-100 p-3 rounded-lg'' None []
       [El ''span'' ''text-lg font-semibold text-purple-900'' None [] [NumTxt (of_int v)]]"

definition crs_solution_cell :: "int \<times> int \<times> int \<Rightarrow> node" where
  "crs_solution_cell r =
     El ''div'' ''bg-green-100 p-4 rounded-lg'' None []
       [El ''div'' ''text-lg font-bold text-green-900'' None []
          [NumTxt (of_int (fst r)), Txt '' (div) '', NumTxt (of_int (fst (snd r))), Txt '' = ''],
        El ''div'' ''text-2xl font-bold text-green-700'' None []
          [NumTxt (of_int (snd (snd r))), Txt '' symbols'']]"

definition choosing_scene :: "int \<Rightarrow> node" where
  "choosing_scene fps =
    (let t = crs_timings_of fps; sv = (\<lambda>s. SSpring s 0) in
     El ''AbsoluteFill'' ''bg-white'' None []
      [El ''Audio'' [] None [] [],
       Seq (pickScale t)
        [Flex None (Some [Fin (15/100), Fin (85/100)]) None
          [El ''div'' ''flex items-center justify-center w-full h-full bg-indigo-50'' None []
             [El ''h1'' ''text-4xl font-bold text-center text-indigo-900'' None
                [(POpacity, sv (pickScale t)), (PTranslateY, SAffine 30 (-30) (sv (pickScale t)))]
                [Txt ''Choosing the Right Scale'']],
           El ''div'' ''w-full h-full relative bg-blue-50 p-6'' None []
             [Seq (smallNumbers t - pickScale t)
                [Flex (Some Row) (Some [Fin 1, Fin 1, Fin 1]) (Some ''gap-4'')
                  [El ''div'' ''flex-1 flex'' None []
                     [scale_guideline small_guideline (SBefore (smallNumbers t) 0 (sv (smallNumbers t)))],
                   El ''div'' ''flex-1 flex'' None []
                     [scale_guideline medium_guideline (SBefore (mediumNumbers t) 0 (sv (mediumNumbers t)))],
                   El ''div'' ''flex-1 flex'' None []
                     [scale_guideline large_guideline (SBefore (largeNumbers t) 0 (sv (largeNumbers t)))]]],
              Seq (letsExample t - pickScale t)
                [El ''AbsoluteFill'' ''bg-white'' None []
                  [Flex None (Some [Fin (4/10), Fin (6/10)]) None
                    [El ''div'' ''flex items-center justify-center w-full h-full bg-purple-50'' None []
                       [El ''div'' ''text-center p-6 bg-white rounded-xl shadow-lg border-2 border-purple-300'' None
                          [(POpacity, sv (letsExample t)), (PScale, SAffine (8/10) (2/10) (sv (letsExample t)))]
                          [El ''h2'' ''text-2xl font-bold text-purple-800 mb-4'' None [] [Txt ''Example Data''],
                           El ''div'' ''grid grid-cols-2 gap-4'' None [] (map crs_example_cell crs_example_values)]],
                     El ''div'' ''w-full h-full relative'' None []
                       [Seq (goodScale t - letsExample t)
                          [El ''div'' ''flex items-center justify-center w-full h-full bg-gradient-to-br from-orange-100 to-yellow-100'' None []
                             [El ''div'' ''text-center p-8 bg-white rounded-xl shadow-lg border-4 border-orange-300'' None
                                [(POpacity, sv (goodScale t)), (PScale, SAffine (8/10) (2/10) (sv (goodScale t)))]
                                [El ''h2'' ''text-3xl font-bold text-orange-800 mb-4'' None [] [Txt ''What would be a good scale?''],
                                 El ''div'' ''flex justify-center items-center space-x-2 text-2xl'' None []
                                   [El ''span'' ''animate-pulse'' None [] [Txt ''(thinking)''],
                                    El ''span'' ''animate-pulse'' None [] [Txt ''(thought)''],
                                    El ''span'' ''animate-pulse'' None [] [Txt ''(question)'']]]]],
                        Seq (scaleOfFive t - letsExample t)
                          [El ''AbsoluteFill'' ''bg-gradient-to-br from-green-100 to-emerald-100'' None []
                             [El ''div'' ''flex items-center justify-center w-full h-full'' None []
                                [El ''div'' ''text-center p-8 bg-white rounded-xl shadow-lg border-4 border-green-400'' None
                                   [(POpacity, sv (scaleOfFive t)), (PTranslateY, SAffine 50 (-50) (sv (scaleOfFive t)))]
                                   [El ''h2'' ''text-2xl font-bold text-green-800 mb-6'' None [] [Txt ''Scale of 5 works perfectly!''],
                                    El ''div'' ''grid grid-cols-2 gap-4'' None [] (map crs_solution_cell crs_solution_rows)]]]]]]]]]]]])"

text \<open>
  The rendered ScaleGuideline cards, recognised by their tag and the start of
  their class string (no other element of the scene has it).
\<close>

definition is_guideline_card :: "vel \<Rightarrow> bool" where
  "is_guideline_card v \<longleftrightarrow> fst v = ''div'' \<and> take 23 (fst (snd v)) = ''w-full h-full bg-white ''"

subsection \<open>Evaluation lemmas\<close>

lemma crs_timings_of_30:
  "crs_timings_of 30 = \<lparr>pickScale = 70, smallNumbers = 214, mediumNumbers = 403, largeNumbers = 619,
     letsExample = 841, goodScale = 1075, scaleOfFive = 1186\<rparr>"
  by (simp add: crs_timings_of_def js_round_def floor_eq_iff)

lemma choosing_scene_fades_in_static: "fades_in (choosing_scene 30)"
  unfolding fades_in_def by code_simp

subsection \<open>Properties of the timing table\<close>

lemma crs_seq_starts:
  "set (seq_starts 0 (choosing_scene fps)) \<subseteq> set (crs_timing_list (crs_timings_of fps))"
  by (simp add: choosing_scene_def crs_timing_list_def Let_def scale_guideline_def picture_graph_example_def
      star_symbol_def small_guideline_def medium_guideline_def large_guideline_def crs_example_cell_def
      crs_solution_cell_def crs_example_values_def crs_solution_rows_def)

lemma crs_spring_starts:
  "set (scene_spring_starts (choosing_scene fps)) = set (crs_timing_list (crs_timings_of fps))"
  by (simp add: scene_spring_starts_def choosing_scene_def crs_timing_list_def Let_def scale_guideline_def
      picture_graph_example_def star_symbol_def small_guideline_def medium_guideline_def large_guideline_def
      crs_example_cell_def crs_solution_cell_def crs_example_values_def crs_solution_rows_def insert_commute)

lemma crs_guideline_mounts:
  "filter (\<lambda>m. m_tag m = ''div'' \<and> take 23 (m_class m) = ''w-full h-full bg-white '') (mounts 0 [] (choosing_scene 30)) =
   [\<lparr>m_tag = ''div'', m_class = ''w-full h-full bg-white border-blue-300 border-2 rounded-xl p-4 mx-2 flex flex-col'',
     m_key = None, m_style = [(POpacity, SBefore 214 0 (SSpring 214 0))], m_gates = [70, 214]\<rparr>,
    \<lparr>m_tag = ''div'', m_class = ''w-full h-full bg-white border-blue-300 border-2 rounded-xl p-4 mx-2 flex flex-col'',
     m_key = None, m_style = [(POpacity, SBefore 403 0 (SSpring 403 0))], m_gates = [70, 214]\<rparr>,
    \<lparr>m_tag = ''div'', m_class = ''w-full h-full bg-white border-orange-300 border-2 rounded-xl p-4 mx-2 flex flex-col'',
     m_key = None, m_style = [(POpacity, SBefore 619 0 (SSpring 619 0))], m_gates = [70, 214]\<rparr>]"
  by code_simp

text \<open>
  C9. For every frame rate of at least one frame per second the timing table is
  strictly increasing, so every nested \<open>Sequence\<close> offset of the scene
  (\<open>smallNumbers - pickScale\<close>, \<open>letsExample - pickScale\<close>,
  \<open>goodScale - letsExample\<close>, \<open>scaleOfFive - letsExample\<close>) is positive.
\<close>

theorem crs_timings_increasing:
  assumes "1 \<le> fps"
  shows "sorted_wrt (<) (crs_timing_list (crs_timings_of fps))"
proof -
  let ?F = "of_int fps :: rat"
  from assms have F: "1 \<le> ?F" by simp
  have "js_round (2319/1000 * ?F) < js_round (7139/1000 * ?F)"
       "js_round (7139/1000 * ?F) < js_round (1342/100 * ?F)"
       "js_round (1342/100 * ?F) < js_round (20619/1000 * ?F)"
       "js_round (20619/1000 * ?F) < js_round (28019/1000 * ?F)"
       "js_round (28019/1000 * ?F) < js_round (3584/100 * ?F)"
       "js_round (3584/100 * ?F) < js_round (3952/100 * ?F)"
    using F by (auto intro!: js_round_step)
  then show ?thesis
    by (simp add: crs_timing_list_def crs_timings_of_def)
qed

theorem crs_timings_increasing_witness:
  "sorted_wrt (<) (crs_timing_list (crs_timings_of 24))"
  using crs_timings_increasing [of 24] by simp

text \<open>
  Rounding is robust at 30 frames per second, which justifies the exact rationals
  of the model at the registered frame rate: each product \<open>s * 30\<close> lies at
  least \<open>1/20\<close> away from a rounding boundary, so the floating-point product the
  code computes (within \<open>10^-12\<close> of the exact one) rounds to the same frame as
  the exact rational the model uses.
\<close>

lemma crs_timings_round_stable:
  "list_all2 (\<lambda>s n. js_round (s * 30) = n \<and> of_int n + 1/20 \<le> s * 30 + 1/2
                    \<and> s * 30 + 1/2 + 1/20 < of_int n + 1)
     crs_voiceover_seconds (crs_timing_list (crs_timings_of 30))"
  by (simp add: crs_timings_of_30 crs_voiceover_seconds_def crs_timing_list_def js_round_def floor_eq_iff)

subsection \<open>Properties of the scene\<close>

text \<open>
  C10. No element pops in: every element of the scene that has an animated
  opacity is rendered for the first time at the frame its enclosing Sequences
  start, and its opacity there is 0, for every spring that rests until its start.
\<close>

theorem choosing_scene_fades_in:
  assumes "spring_rest spr" and "m \<in> set (mounts 0 [] (choosing_scene 30))"
    and "(POpacity, e) \<in> set (m_style m)"
  shows "mount_view spr (mount_start m) m
           \<in> set (concat (map vels (render spr (mount_start m) (mount_start m) (choosing_scene 30))))
         \<and> eval_sexpr spr (mount_start m) e = 0"
  using choosing_scene_fades_in_static assms by (rule fades_in_sound)

theorem choosing_scene_fades_in_witness:
  "eval_sexpr (\<lambda>f. if f \<le> 0 then 0 else 1) 70 (SSpring 70 0) = 0"
proof -
  let ?m = "\<lparr>m_tag = ''h1'', m_class = ''text-4xl font-bold text-center text-indigo-900'', m_key = None,
            m_style = [(POpacity, SSpring 70 0), (PTranslateY, SAffine 30 (-30) (SSpring 70 0))],
            m_gates = [70]\<rparr>"
  have r: "spring_rest (\<lambda>f. if f \<le> 0 then 0 else (1::rat))" by (simp add: spring_rest_def)
  have m: "?m \<in> set (mounts 0 [] (choosing_scene 30))" by code_simp
  have e: "(POpacity, SSpring 70 0) \<in> set (m_style ?m)" by simp
  have "mount_start ?m = 70" by (simp add: mount_start_def)
  with choosing_scene_fades_in [OF r m e] show ?thesis by simp
qed

subsection \<open>Properties of the example component\<close>


text \<open>
  C20. The scene is cued to its voiceover at every frame rate: the springs of its
  styles start exactly at the frames of the timing table (every entry is used,
  no other frame is), and every element appears at frame 0 or at a frame of the
  table.
\<close>

theorem crs_on_cue:
  "set (scene_spring_starts (choosing_scene fps)) = set (crs_timing_list (crs_timings_of fps))
   \<and> set (map mount_start (mounts 0 [] (choosing_scene fps)))
       \<subseteq> insert 0 (set (crs_timing_list (crs_timings_of fps)))"
  using crs_seq_starts [of fps] mount_start_seq_starts [of _ "choosing_scene fps"]
  by (auto simp: crs_spring_starts)

text \<open>
  C22. The three guideline cards are mounted together at \<open>smallNumbers\<close>
  (frame 214), inside the small-numbers Sequence, but the guards
  \<open>frame < t ? 0 : getSpringValue(t)\<close> keep the medium and large cards at
  opacity 0 until their own cues (frames 403 and 619): at every frame the cards'
  opacities are exactly these.
\<close>

theorem guideline_cards_staggered:
  "map (\<lambda>v. snd (snd (snd v))) (filter is_guideline_card (concat (map vels (render spr f f (choosing_scene 30))))) =
   (if f < 214 then []
    else [[(POpacity, spr (f - 214))],
          [(POpacity, if f < 403 then 0 else spr (f - 403))],
          [(POpacity, if f < 619 then 0 else spr (f - 619))]])"
proof -
  have "filter is_guideline_card (concat (map vels (render spr f f (choosing_scene 30)))) =
        map (mount_view spr f) (filter (mounted_at f)
          (filter (\<lambda>m. m_tag m = ''div'' \<and> take 23 (m_class m) = ''w-full h-full bg-white '') (mounts 0 [] (choosing_scene 30))))"
    by (simp add: render_vels_mounts_root filter_map_mount_view filter_filter conj_commute
        is_guideline_card_def mount_view_def)
  then show ?thesis
    by (simp add: crs_guideline_mounts mounted_at_def mount_view_def eval_style_def get_spring_value_def)
qed
end
