(* ===== verification/ScaledPictureGraphs.thy ===== *)
theory ScaledPictureGraphs
  imports Scene
begin

text \<open>
  The composition ScaledPictureGraphs
  (src/src/remotion/MyComp/ScaledPictureGraphs.tsx): its timing table (whole
  seconds times \<open>fps\<close>), its own StarSymbol, the delayed springs of the
  three-stars row, and the JSX tree of the component as a \<open>node\<close> of theory Scene.
\<close>

record spg_timings =
  scaledPictureGraph :: frame
  moreThanOne :: frame
  scaleTellsYou :: frame
  eachStarEquals :: frame
  threeStarsMeans :: frame
  fifteenStudentsTotal :: frame
  fewerSymbols :: frame

definition spg_timings_of :: "int \<Rightarrow> spg_timings" where
  "spg_timings_of fps =
     \<lparr>scaledPictureGraph = 0, moreThanOne = 2 * fps, scaleTellsYou = 4 * fps,
      eachStarEquals = 6 * fps, threeStarsMeans = 8 * fps, fifteenStudentsTotal = 10 * fps,
      fewerSymbols = 13 * fps\<rparr>"

definition spg_timing_list :: "spg_timings \<Rightarrow> frame list" where
  "spg_timing_list t = [scaledPictureGraph t, moreThanOne t, scaleTellsYou t, eachStarEquals t,
                        threeStarsMeans t, fifteenStudentsTotal t, fewerSymbols t]"

definition spg_star_symbol :: "int option \<Rightarrow> string \<Rightarrow> node" where
  "spg_star_symbol key className =
     El ''svg'' (''text-yellow-400 '' @ className) key [] [El ''path'' [] None [] []]"

text \<open>
  One cell of \<open>[1, 2, 3].map((starIndex) => ...)\<close>: the star scales and fades in
  with \<open>getSpringValue(timings.threeStarsMeans, starIndex * 200)\<close>, a delay of
  \<open>starIndex * 200\<close> frames.
\<close>

definition spg_star_cell :: "frame \<Rightarrow> int \<Rightarrow> node" where
  "spg_star_cell start starIndex =
     El ''div'' ''flex items-center justify-center w-full h-full'' (Some starIndex) []
       [El ''div'' [] None
          [(PScale, SSpring start (starIndex * 200)), (POpacity, SSpring start (starIndex * 200))]
          [spg_star_symbol None []]]"

definition spg_stars_row :: "int \<Rightarrow> node" where
  "spg_stars_row fps =
     Flex (Some Row) (Some [Fin (33/100), Fin (33/100), Fin (34/100)]) None
       [Arr (map (spg_star_cell (threeStarsMeans (spg_timings_of fps))) [1, 2, 3])]"

definition scaled_scene :: "int \<Rightarrow> node" where
  "scaled_scene fps =
    (let t = spg_timings_of fps; sv = (\<lambda>s. SSpring s 0) in
     El ''AbsoluteFill'' ''bg-white'' None []
      [Seq (scaledPictureGraph t)
        [Flex None (Some [Fin (15/100), Fin (85/100)]) None
          [El ''div'' ''flex items-center justify-center w-full h-full bg-blue-50'' None []
             [El ''h1'' ''text-4xl font-bold text-center text-blue-900'' None
                [(POpacity, sv (scaledPictureGraph t))] [Txt ''Understanding Scaled Picture Graphs'']],
           El ''div'' ''w-full h-full relative'' None []
             [Seq (moreThanOne t - scaledPictureGraph t)
                [Flex None (Some [Fin (4/10), Fin (6/10)]) None
                  [El ''div'' ''flex items-center justify-center w-full h-full bg-green-50'' None []
                     [El ''h2'' ''text-2xl font-semibold text-center text-green-800'' None
                        [(POpacity, sv (moreThanOne t))] [Txt ''Each symbol represents MORE than one item'']],
                   El ''div'' ''w-full h-full relative'' None []
                     [Seq (scaleTellsYou t - moreThanOne t)
                        [Flex (Some Row) (Some [Fin (5/10), Fin (5/10)]) None
                          [El ''div'' ''flex items-center justify-center w-full h-full'' None []
                             [El ''div'' [] None
                                [(PScale, sv (scaleTellsYou t)), (POpacity, sv (scaleTellsYou t))]
                                [spg_star_symbol None []]],
                           Seq (eachStarEquals t - scaleTellsYou t)
                             [El ''div'' ''flex items-center justify-center w-full h-full'' None []
                                [El ''p'' ''text-2xl font-medium text-center text-gray-800'' None
                                   [(POpacity, sv (eachStarEquals t))] [Txt ''= 5 students'']]]]],
                      Seq (threeStarsMeans t - moreThanOne t)
                        [El ''AbsoluteFill'' ''bg-white'' None []
                          [spg_stars_row fps,
                           Seq (fifteenStudentsTotal t - threeStarsMeans t)
                             [El ''div'' ''absolute bottom-16 left-0 right-0 flex items-center justify-center'' None
                                [(POpacity, sv (fifteenStudentsTotal t)),
                                 (PTranslateY, SAffine 50 (-50) (sv (fifteenStudentsTotal t)))]
                                [El ''div'' ''bg-blue-100 px-8 py-4 rounded-lg border-2 border-blue-300'' None []
                                   [El ''p'' ''text-xl font-semibold text-center text-blue-900'' None []
                                      [Txt ''3 x 5 = 15 students'']]]]]]]]],
              Seq (fewerSymbols t - scaledPictureGraph t)
                [El ''AbsoluteFill'' ''bg-gradient-to-br from-purple-100 to-pink-100'' None []
                  [El ''div'' ''flex items-center justify-center w-full h-full'' None []
                     [El ''div'' ''text-center p-8 bg-white rounded-xl shadow-lg border-4 border-purple-300'' None
                        [(POpacity, sv (fewerSymbols t)), (PScale, SAffine (8/10) (2/10) (sv (fewerSymbols t)))]
                        [El ''h2'' ''text-3xl font-bold text-purple-800 mb-4'' None [] [Txt ''Think About It!''],
                         El ''p'' ''text-xl text-purple-700'' None []
                           [Txt ''How does the scale help us show'', El ''br'' [] None [] [],
                            Txt ''larger numbers with fewer symbols?''],
                         El ''div'' ''mt-6 flex justify-center space-x-4'' None []
                           [Arr (map (\<lambda>i. spg_star_symbol (Some i) ''animate-pulse'') [1, 2, 3])]]]]]]]]])"

subsection \<open>Evaluation lemmas\<close>

lemma scaled_scene_fades_in_static: "fades_in (scaled_scene 30)"
  unfolding fades_in_def by code_simp

lemma spg_spring_starts:
  "set (scene_spring_starts (scaled_scene fps)) =
     {0, 2 * fps, 4 * fps, 6 * fps, 8 * fps + 200, 8 * fps + 400, 8 * fps + 600, 10 * fps, 13 * fps}"
  by (auto simp: scene_spring_starts_def scaled_scene_def spg_timings_of_def spg_stars_row_def
      spg_star_cell_def spg_star_symbol_def)

lemma spg_seq_starts:
  "set (seq_starts 0 (scaled_scene fps)) \<subseteq> set (spg_timing_list (spg_timings_of fps))"
  by (simp add: scaled_scene_def spg_timing_list_def spg_timings_of_def spg_stars_row_def
      spg_star_cell_def spg_star_symbol_def)

subsection \<open>Properties\<close>

text \<open>
  C12. No element pops in: every element with an animated opacity is first rendered
  at the frame its Sequences start and has opacity 0 there.
\<close>

theorem scaled_scene_fades_in:
  assumes "spring_rest spr" and "m \<in> set (mounts 0 [] (scaled_scene 30))"
    and "(POpacity, e) \<in> set (m_style m)"
  shows "mount_view spr (mount_start m) m
           \<in> set (concat (map vels (render spr (mount_start m) (mount_start m) (scaled_scene 30))))
         \<and> eval_sexpr spr (mount_start m) e = 0"
  using scaled_scene_fades_in_static assms by (rule fades_in_sound)

theorem scaled_scene_fades_in_witness:
  "eval_sexpr (\<lambda>f. if f \<le> 0 then 0 else 1) 390 (SSpring 390 0) = 0"
proof -
  let ?m = "\<lparr>m_tag = ''div'', m_class = ''text-center p-8 bg-white rounded-xl shadow-lg border-4 border-purple-300'',
            m_key = None,
            m_style = [(POpacity, SSpring 390 0), (PScale, SAffine (8/10) (2/10) (SSpring 390 0))],
            m_gates = [0, 390]\<rparr>"
  have r: "spring_rest (\<lambda>f. if f \<le> 0 then 0 else (1::rat))" by (simp add: spring_rest_def)
  have m: "?m \<in> set (mounts 0 [] (scaled_scene 30))" by code_simp
  have e: "(POpacity, SSpring 390 0) \<in> set (m_style ?m)" by simp
  have "mount_start ?m = 390" by (simp add: mount_start_def)
  with scaled_scene_fades_in [OF r m e] show ?thesis by simp
qed

text \<open>
  C13. The three-stars demonstration shows one star: the delays
  \<open>starIndex * 200\<close> are frames, so at every frame of the 480-frame composition
  stars 2 and 3 are rendered with scale 0 and opacity 0, and star 1 only starts at
  frame 440, after the "3 x 5 = 15 students" equation (frame 300). Exactly two
  mounted elements (both mounted at frame 240) animate only after frame 480.
\<close>

theorem spg_late_stars:
  assumes "spring_rest spr" and "f < 480"
  shows "map (\<lambda>v. snd (snd (snd v))) (concat (map vels (render spr f t (spg_stars_row 30)))) =
           [[], [(PScale, spr (f - 440)), (POpacity, spr (f - 440))], [], [],
            [], [(PScale, 0), (POpacity, 0)], [], [],
            [], [(PScale, 0), (POpacity, 0)], [], []]
         \<and> map mount_start (filter (\<lambda>m. list_ex (\<lambda>st. list_ex (\<lambda>s. 480 \<le> s) (spring_starts (snd st)))
               (m_style m)) (mounts 0 [] (scaled_scene 30))) = [240, 240]"
proof
  show "map mount_start (filter (\<lambda>m. list_ex (\<lambda>st. list_ex (\<lambda>s. 480 \<le> s) (spring_starts (snd st)))
          (m_style m)) (mounts 0 [] (scaled_scene 30))) = [240, 240]"
    by code_simp
  show "map (\<lambda>v. snd (snd (snd v))) (concat (map vels (render spr f t (spg_stars_row 30)))) =
           [[], [(PScale, spr (f - 440)), (POpacity, spr (f - 440))], [], [],
            [], [(PScale, 0), (POpacity, 0)], [], [],
            [], [(PScale, 0), (POpacity, 0)], [], []]"
    using assms
    by (simp add: spg_stars_row_def spg_star_cell_def spg_star_symbol_def spg_timings_of_def
        flex_view_def div_cells_flex_container jsx_children_def eval_style_def get_spring_value_def
        spring_rest_def)
qed

theorem spg_late_stars_witness:
  "map (\<lambda>v. snd (snd (snd v)))
     (concat (map vels (render (\<lambda>f. if f \<le> 0 then 0 else 1) 450 210 (spg_stars_row 30)))) =
   [[], [(PScale, 1), (POpacity, 1)], [], [],
    [], [(PScale, 0), (POpacity, 0)], [], [],
    [], [(PScale, 0), (POpacity, 0)], [], []]"
proof -
  have r: "spring_rest (\<lambda>f. if f \<le> 0 then 0 else (1::rat))" by (simp add: spring_rest_def)
  show ?thesis using spg_late_stars [OF r, of 450 210] by simp
qed

text \<open>
  C21. The cue points of the scene at every frame rate of at least 1: every
  element appears at frame 0 or at a frame of the timing table, and springs start
  at every entry of the table but one, \<open>threeStarsMeans\<close>: the three stars it
  announces start 200, 400 and 600 frames after it.
\<close>

theorem spg_cues:
  assumes "1 \<le> fps"
  shows "set (spg_timing_list (spg_timings_of fps)) - set (scene_spring_starts (scaled_scene fps))
           = {threeStarsMeans (spg_timings_of fps)}
         \<and> set (map mount_start (mounts 0 [] (scaled_scene fps)))
             \<subseteq> insert 0 (set (spg_timing_list (spg_timings_of fps)))"
  using assms spg_seq_starts [of fps] mount_start_seq_starts [of _ "scaled_scene fps"]
  by (auto simp: spg_spring_starts spg_timing_list_def spg_timings_of_def)

theorem spg_cues_witness:
  "set (spg_timing_list (spg_timings_of 30)) - set (scene_spring_starts (scaled_scene 30)) = {240}"
  using spg_cues [of 30] by (simp add: spg_timings_of_def)
end
