(* ===== verification/RemotionRoot.thy ===== *)
theory RemotionRoot
  imports JsSemantics
begin

text \<open>
  The composition registry \<open>RemotionRoot\<close> (src/src/remotion/Root.tsx): the four
  \<open><Composition>\<close> elements with their ids, durations, frame rates and sizes.
  The constants it imports from types/constants (\<open>COMP_NAME\<close>,
  \<open>DURATION_IN_FRAMES\<close>, \<open>VIDEO_FPS\<close>, \<open>VIDEO_WIDTH\<close>, \<open>VIDEO_HEIGHT\<close>) are not
  part of src/ and are a parameter record. Registration is Remotion's check of the
  registered compositions, modelled from its documented errors: an id of letters,
  digits and dashes, no id twice, a positive duration and frame rate, a positive
  width and height; the first violation, in registration order, is the error.
\<close>

record root_constants =
  COMP_NAME :: string
  DURATION_IN_FRAMES :: int
  VIDEO_FPS :: int
  VIDEO_WIDTH :: int
  VIDEO_HEIGHT :: int

record composition =
  comp_id :: string
  comp_duration :: int
  comp_fps :: int
  comp_width :: int
  comp_height :: int

definition remotion_root :: "root_constants \<Rightarrow> composition list" where
  "remotion_root k =
     [\<lparr>comp_id = COMP_NAME k, comp_duration = DURATION_IN_FRAMES k, comp_fps = VIDEO_FPS k,
       comp_width = VIDEO_WIDTH k, comp_height = VIDEO_HEIGHT k\<rparr>,
      \<lparr>comp_id = ''NextLogo'', comp_duration = 300, comp_fps = 30, comp_width = 140, comp_height = 140\<rparr>,
      \<lparr>comp_id = ''ScaledPictureGraphs'', comp_duration = 16 * 30, comp_fps = VIDEO_FPS k,
       comp_width = VIDEO_WIDTH k, comp_height = VIDEO_HEIGHT k\<rparr>,
      \<lparr>comp_id = ''ChoosingTheRightScale'', comp_duration = js_round (46479/1000 * 30),
       comp_fps = VIDEO_FPS k, comp_width = VIDEO_WIDTH k, comp_height = VIDEO_HEIGHT k\<rparr>]"

datatype root_error =
    InvalidId string
  | DuplicateId string
  | InvalidDuration string
  | InvalidFps string
  | InvalidDimension string

definition id_char :: "char \<Rightarrow> bool" where
  "id_char c \<longleftrightarrow> (let n = (of_char c :: nat) in
     (97 \<le> n \<and> n \<le> 122) \<or> (65 \<le> n \<and> n \<le> 90) \<or> (48 \<le> n \<and> n \<le> 57) \<or> n = 45)"

definition valid_id :: "string \<Rightarrow> bool" where
  "valid_id s \<longleftrightarrow> s \<noteq> [] \<and> list_all id_char s"

fun register_all :: "string list \<Rightarrow> composition list \<Rightarrow> root_error + string list" where
  "register_all seen [] = Inr (rev seen)"
| "register_all seen (c # cs) =
     (if \<not> valid_id (comp_id c) then Inl (InvalidId (comp_id c))
      else if comp_id c \<in> set seen then Inl (DuplicateId (comp_id c))
      else if comp_duration c \<le> 0 then Inl (InvalidDuration (comp_id c))
      else if comp_fps c \<le> 0 then Inl (InvalidFps (comp_id c))
      else if comp_width c \<le> 0 \<or> comp_height c \<le> 0 then Inl (InvalidDimension (comp_id c))
      else register_all (comp_id c # seen) cs)"

lemma choosing_duration_value:
  "js_round (46479/1000 * 30) = 1394" "js_round (139437/100) = 1394"
  by (simp_all add: js_round_def floor_eq_iff)

lemma register_all_Inr_iff:
  "register_all seen cs = Inr ids \<longleftrightarrow>
     ids = rev seen @ map comp_id cs \<and> distinct (seen @ map comp_id cs) \<and>
     list_all (\<lambda>c. valid_id (comp_id c) \<and> 0 < comp_duration c \<and> 0 < comp_fps c
                   \<and> 0 < comp_width c \<and> 0 < comp_height c) cs"
  if "distinct seen"
  using that
  by (induction seen cs rule: register_all.induct) auto

lemma valid_id_literals:
  "valid_id ''NextLogo''" "valid_id ''ScaledPictureGraphs''" "valid_id ''ChoosingTheRightScale''"
  by (simp_all add: valid_id_def id_char_def)

text \<open>
  C14. The registry registers without error, as the four ids in source order,
  exactly when the external constants are sound: \<open>COMP_NAME\<close> is a valid id
  different from the three literal ids, and \<open>DURATION_IN_FRAMES\<close>,
  \<open>VIDEO_FPS\<close>, \<open>VIDEO_WIDTH\<close>, \<open>VIDEO_HEIGHT\<close> are positive. The two
  scene durations, 480 and \<open>Math.round(46.479 * 30) = 1394\<close>, are positive.
\<close>

theorem root_registers_iff:
  "register_all [] (remotion_root k) =
     Inr [COMP_NAME k, ''NextLogo'', ''ScaledPictureGraphs'', ''ChoosingTheRightScale''] \<longleftrightarrow>
   valid_id (COMP_NAME k) \<and> COMP_NAME k \<notin> set [''NextLogo'', ''ScaledPictureGraphs'', ''ChoosingTheRightScale''] \<and>
   0 < DURATION_IN_FRAMES k \<and> 0 < VIDEO_FPS k \<and> 0 < VIDEO_WIDTH k \<and> 0 < VIDEO_HEIGHT k"
  by (auto simp: register_all_Inr_iff remotion_root_def choosing_duration_value valid_id_literals)

text \<open>
  C15. The error path: a \<open>COMP_NAME\<close> equal to a scene's id makes registration
  stop at that scene's composition with a duplicate-id error.
\<close>

theorem root_duplicate_id:
  assumes "COMP_NAME k = ''ScaledPictureGraphs''"
    and "0 < DURATION_IN_FRAMES k" and "0 < VIDEO_FPS k" and "0 < VIDEO_WIDTH k" and "0 < VIDEO_HEIGHT k"
  shows "register_all [] (remotion_root k) = Inl (DuplicateId ''ScaledPictureGraphs'')"
  using assms by (simp add: remotion_root_def valid_id_literals)

theorem root_duplicate_id_witness:
  "register_all [] (remotion_root
     \<lparr>COMP_NAME = ''ScaledPictureGraphs'', DURATION_IN_FRAMES = 240, VIDEO_FPS = 30,
      VIDEO_WIDTH = 1280, VIDEO_HEIGHT = 720\<rparr>) = Inl (DuplicateId ''ScaledPictureGraphs'')"
  by (rule root_duplicate_id) simp_all

end
