(* ===== verification/Spec2Isabelle.thy ===== *)
theory Spec2Isabelle
  imports ChoosingTheRightScale ScaledPictureGraphs RemotionRoot
begin

text \<open>
  \<^bold>\<open>A verification library for the picture-graph lesson videos\<close>
  (repository src/src: two Remotion compositions built on one layout component).

  \<^bold>\<open>The program.\<close> Root.tsx registers four compositions; two of them are in
  src/: ChoosingTheRightScale.tsx and ScaledPictureGraphs.tsx. Each scene reads the
  current frame once (\<open>useCurrentFrame\<close>), computes a timing table of frames from
  voiceover timestamps, and returns a JSX tree of nested Remotion \<open>Sequence\<close>s
  (time windows), FlexContainers and styled elements whose opacity, scale and
  translation are spring curves of the frame (\<open>getSpringValue\<close>). FlexContainer
  (components/FlexContainer.tsx) flattens its children with
  \<open>React.Children.toArray\<close> and gives the \<open>i\<close>-th one the flex weight
  \<open>ratios[i] || 1\<close>.

  \<^bold>\<open>Theories, in import order.\<close>
  \<^item> Prelude: named simp collections, type names (\<open>frame = int\<close>,
    \<open>seconds = rat\<close>), shared lemmas on rounding and on \<open>enumerate\<close>.
  \<^item> JsSemantics: JavaScript numbers (exact rationals, NaN, infinities),
    truthiness, \<open>||\<close>, array reads past the end, \<open>Math.round\<close>.
  \<^item> ReactChildren: React children values, \<open>React.Children.toArray\<close> and the JSX
    children convention (library behaviour, modelled from React's documentation).
  \<^item> FlexContainer: the component (\<open>flex_container\<close>, \<open>flex_of\<close>,
    \<open>flex_cell\<close>, the prop defaults), the specification's abstract layout
    (\<open>spec_layout\<close>) and properties C1 to C8.
  \<^item> Scene: the scene language (Sequences, FlexContainers, elements, text,
    arrays), style expressions over the spring runtime, \<open>render\<close> at a frame (a
    FlexContainer is rendered through \<open>flex_container\<close>), and the static
    analyses proved sound against \<open>render\<close>: the mount table \<open>mounts\<close>
    (\<open>render_vels_mounts\<close>), the no-pop-in check \<open>fades_in\<close>, the interval
    analysis \<open>sexpr_range\<close> with the style-bounds check \<open>styles_within\<close>, the
    declared FlexContainer weights (\<open>flex_uses\<close>, \<open>declared_weights\<close>, against
    the rendered \<open>vflex_weights\<close>), and the cue points of a scene
    (\<open>seq_starts\<close>, \<open>scene_spring_starts\<close>).
  \<^item> ChoosingTheRightScale: timing table, StarSymbol, PictureGraphExample,
    ScaleGuideline, the guideline and example data, the JSX tree
    \<open>choosing_scene\<close>; properties C9 to C11, C20 and C22.
  \<^item> ScaledPictureGraphs: timing table, StarSymbol, the three-stars row, the JSX
    tree \<open>scaled_scene\<close>; properties C12, C13 and C21.
  \<^item> RemotionRoot: the composition list \<open>remotion_root\<close> over the constants of
    types/constants (a parameter record) and Remotion's registration checks;
    properties C14 and C15.
  \<^item> this theory: the properties that span components, C16 to C19.

  \<^bold>\<open>What the lemmas show.\<close> FlexContainer keeps its children in order with
  distinct keys and a truthy weight each, and refines the specification's layout
  unless a ratio is negative or infinite (C4: there the code keeps the ratio and
  the specification demands 1). Every animated element of both scenes starts
  invisible at the frame it appears (C10, C12); every opacity and scale stays in
  \<open>[0, 1]\<close> and every slide-in offset in \<open>[0, 50]\<close> pixels (C18); the
  rendered FlexContainers carry exactly the ratios written in the sources (C19).
  PictureGraphExample draws each row with its value and exactly its number of
  stars, for any data (C11). The timing table of ChoosingTheRightScale is
  increasing for every frame rate (C9), and both tables fit the registered
  durations exactly for \<open>VIDEO_FPS \<le> 35\<close> (resp. 36) (C16, C17).
  ChoosingTheRightScale is cued to its voiceover at every frame rate: its springs
  start exactly at the timing-table frames and its elements appear only at frame 0
  or at those frames (C20); its three guideline cards are mounted together at
  frame 214 and faded in one by one by their opacity guards (C22).
  ScaledPictureGraphs uses every cue of its table but \<open>threeStarsMeans\<close> (C21),
  and its three-stars row shows one star at most, because its delays of 200, 400
  and 600 frames outlast the 480-frame video (C13). The registry registers
  exactly when the external constants are sound (C14), and a clash of
  \<open>COMP_NAME\<close> with a scene id is a duplicate-id error (C15).

  \<^bold>\<open>Modelling choices.\<close> Numbers are exact rationals and frame rates are
  integers; the lemma \<open>crs_timings_round_stable\<close> shows that at 30 fps every
  rounded product lies at least \<open>1/20\<close> from a rounding boundary, far more than
  the error of a double, and the frame-rate theorems C9, C16 and C17 rest on
  margins of a whole frame. The runtime's \<open>spring\<close> is a parameter constrained
  by \<open>spring_rest\<close> (0 up to its start) and, for the bounds, by
  \<open>spring_unit\<close> (values in \<open>[0, 1]\<close>: both scenes configure
  \<open>damping: 100, stiffness: 200\<close> with mass 1, an overdamped spring that rises
  from 0 towards 1 without overshoot). The sources never give a Sequence a
  duration, so Sequences never end. Static attributes (sizes, fonts, SVG paths,
  emoji) are not kept; class strings and keys are. Strings are lists of 8-bit
  characters, so composition ids outside that range (Remotion also admits CJK
  ideographs) cannot be expressed. Registration checks the conditions of
  Remotion's composition validation in one pass per composition, in source order.
  No fuel is needed: every function is structurally recursive.

  \<^bold>\<open>Not modelled.\<close> Font loading, \<open><Audio>\<close> and \<open>staticFile\<close> (I/O of external
  libraries, kept as an element only), the \<open>AbsoluteFill\<close> container Remotion
  wraps around each Sequence's children (layout only), the pixel layout the
  browser computes from the flex weights, the spring's numeric curve beyond its
  contract, and Main, NextLogo and types/constants, which are not part of src/.
\<close>

lemma crs_registered_duration: "comp_duration (remotion_root k ! 3) = 1394"
  by (simp add: remotion_root_def choosing_duration_value)

lemma spg_registered_duration: "comp_duration (remotion_root k ! 2) = 480"
  by (simp add: remotion_root_def)

lemma crs_timings_le_last:
  assumes "0 \<le> fps"
  shows "list_all (\<lambda>t. t \<le> scaleOfFive (crs_timings_of fps)) (crs_timing_list (crs_timings_of fps))"
proof -
  have F: "0 \<le> (of_int fps :: rat)" using assms by simp
  have m: "a \<le> 3952/100 \<Longrightarrow> js_round (a * of_int fps) \<le> js_round (3952/100 * of_int fps)" for a
    using F by (intro js_round_mono mult_right_mono) simp_all
  show ?thesis
    using m [of "2319/1000"] m [of "7139/1000"] m [of "1342/100"] m [of "20619/1000"]
      m [of "28019/1000"] m [of "3584/100"]
    by (simp add: crs_timing_list_def crs_timings_of_def)
qed

text \<open>
  C16. ChoosingTheRightScale's timings use \<open>VIDEO_FPS\<close> while its registered
  duration is fixed at \<open>Math.round(46.479 * 30) = 1394\<close> frames: every timing
  lies inside the composition exactly when \<open>VIDEO_FPS \<le> 35\<close>.
\<close>

theorem crs_fits_composition_iff:
  assumes "1 \<le> VIDEO_FPS k"
  shows "list_all (\<lambda>t. t < comp_duration (remotion_root k ! 3))
           (crs_timing_list (crs_timings_of (VIDEO_FPS k))) \<longleftrightarrow> VIDEO_FPS k \<le> 35"
proof -
  let ?f = "VIDEO_FPS k"
  have last: "scaleOfFive (crs_timings_of ?f) < 1394 \<longleftrightarrow> ?f \<le> 35"
  proof
    assume "scaleOfFive (crs_timings_of ?f) < 1394"
    then have "3952/100 * of_int ?f + 1/2 < (1394::rat)"
      by (simp add: crs_timings_of_def js_round_less_iff)
    then have "of_int ?f < (36::rat)" by linarith
    then show "?f \<le> 35" by simp
  next
    assume "?f \<le> 35"
    then have "of_int ?f \<le> (35::rat)" by simp
    then have "3952/100 * of_int ?f + 1/2 < (1394::rat)" by linarith
    then show "scaleOfFive (crs_timings_of ?f) < 1394"
      by (simp add: crs_timings_of_def js_round_less_iff)
  qed
  have "list_all (\<lambda>t. t \<le> scaleOfFive (crs_timings_of ?f)) (crs_timing_list (crs_timings_of ?f))"
    using assms by (intro crs_timings_le_last) simp
  moreover have "scaleOfFive (crs_timings_of ?f) \<in> set (crs_timing_list (crs_timings_of ?f))"
    by (simp add: crs_timing_list_def)
  ultimately show ?thesis
    using last by (fastforce simp: crs_registered_duration list_all_iff)
qed

theorem crs_fits_composition_iff_witness:
  "\<not> list_all (\<lambda>t. t < comp_duration (remotion_root
      \<lparr>COMP_NAME = ''MyComp'', DURATION_IN_FRAMES = 200, VIDEO_FPS = 60, VIDEO_WIDTH = 1280, VIDEO_HEIGHT = 720\<rparr> ! 3))
     (crs_timing_list (crs_timings_of 60))"
  using crs_fits_composition_iff [of
      "\<lparr>COMP_NAME = ''MyComp'', DURATION_IN_FRAMES = 200, VIDEO_FPS = 60, VIDEO_WIDTH = 1280, VIDEO_HEIGHT = 720\<rparr>"]
  by simp

text \<open>
  C17. ScaledPictureGraphs' timings are whole seconds times \<open>VIDEO_FPS\<close> while
  its registered duration is fixed at \<open>16 * 30 = 480\<close> frames: every timing lies
  inside the composition exactly when \<open>VIDEO_FPS \<le> 36\<close>.
\<close>

theorem spg_fits_composition_iff:
  assumes "1 \<le> VIDEO_FPS k"
  shows "list_all (\<lambda>t. t < comp_duration (remotion_root k ! 2))
           (spg_timing_list (spg_timings_of (VIDEO_FPS k))) \<longleftrightarrow> VIDEO_FPS k \<le> 36"
  using assms by (auto simp: spg_registered_duration spg_timing_list_def spg_timings_of_def)

theorem spg_fits_composition_iff_witness:
  "list_all (\<lambda>t. t < comp_duration (remotion_root
      \<lparr>COMP_NAME = ''MyComp'', DURATION_IN_FRAMES = 200, VIDEO_FPS = 30, VIDEO_WIDTH = 1280, VIDEO_HEIGHT = 720\<rparr> ! 2))
     (spg_timing_list (spg_timings_of 30))"
  using spg_fits_composition_iff [of
      "\<lparr>COMP_NAME = ''MyComp'', DURATION_IN_FRAMES = 200, VIDEO_FPS = 30, VIDEO_WIDTH = 1280, VIDEO_HEIGHT = 720\<rparr>"]
  by simp

lemma scenes_styles_within_static:
  "styles_within (style_bounds 50) (choosing_scene 30)" "styles_within (style_bounds 50) (scaled_scene 30)"
  unfolding styles_within_def by code_simp+

text \<open>
  C18. While every spring stays in \<open>[0, 1]\<close> (the springs of both scenes are
  overdamped, \<open>damping 100\<close>, \<open>stiffness 200\<close>, mass 1, so they never
  overshoot), every opacity and scale either scene renders at 30 frames per second
  lies in \<open>[0, 1]\<close> and every \<open>translateY\<close> offset in \<open>[0, 50]\<close> pixels,
  at every frame.
\<close>

theorem scenes_styles_bounded:
  assumes "spring_unit spr" and "n = choosing_scene 30 \<or> n = scaled_scene 30"
    and "v \<in> set (concat (map vels (render spr f f n)))"
    and "(p, x) \<in> set (snd (snd (snd v)))"
  shows "fst (style_bounds 50 p) \<le> x \<and> x \<le> snd (style_bounds 50 p)"
proof -
  from assms(2) have "styles_within (style_bounds 50) n"
    using scenes_styles_within_static by auto
  from this assms(1,3,4) show ?thesis by (rule styles_within_sound)
qed

theorem scenes_styles_bounded_witness:
  "fst (style_bounds 50 PTranslateY) \<le> 15 \<and> (15::rat) \<le> snd (style_bounds 50 PTranslateY)"
proof -
  let ?spr = "\<lambda>f::int. if f \<le> 0 then 0 else if f \<le> 10 then 1/2 else (1::rat)"
  have u: "spring_unit ?spr" by (simp add: spring_unit_def)
  have v: "(''h1'', ''text-4xl font-bold text-center text-indigo-900'', None,
            [(POpacity, 1/2), (PTranslateY, 15)]) \<in> set (concat (map vels (render ?spr 75 75 (choosing_scene 30))))"
    by code_simp
  show ?thesis
    by (rule scenes_styles_bounded [OF u _ v]) simp_all
qed
lemma scenes_declared_weights:
  "map declared_weights (flex_uses (choosing_scene 30)) =
     [[Fin (15/100), Fin (85/100)], [Fin 1, Fin 1, Fin 1], [Fin (4/10), Fin (6/10)]]"
  "map declared_weights (flex_uses (scaled_scene 30)) =
     [[Fin (15/100), Fin (85/100)], [Fin (4/10), Fin (6/10)], [Fin (5/10), Fin (5/10)],
      [Fin (33/100), Fin (33/100), Fin (34/100)]]"
  by code_simp+

lemma crs_flex_weights_final:
  "concat (map vflex_weights (render spr 1393 1393 (choosing_scene 30))) =
     [[Fin (15/100), Fin (85/100)], [Fin 1, Fin 1, Fin 1], [Fin (4/10), Fin (6/10)]]"
  by (simp add: choosing_scene_def crs_timings_of_def js_round_def flex_view_def div_cells_flex_container
      jsx_children_def scale_guideline_def picture_graph_example_def star_symbol_def small_guideline_def
      medium_guideline_def large_guideline_def crs_example_cell_def crs_solution_cell_def
      crs_example_values_def crs_solution_rows_def resolved_ratios_def flex_of_eq)

lemma spg_flex_weights_final:
  "concat (map vflex_weights (render spr 479 479 (scaled_scene 30))) =
     [[Fin (15/100), Fin (85/100)], [Fin (4/10), Fin (6/10)], [Fin (5/10), Fin (5/10)],
      [Fin (33/100), Fin (33/100), Fin (34/100)]]"
  by (simp add: scaled_scene_def spg_timings_of_def flex_view_def div_cells_flex_container jsx_children_def
      spg_stars_row_def spg_star_cell_def spg_star_symbol_def resolved_ratios_def flex_of_eq)

text \<open>
  C19. The rendered layout carries the weights the sources write: at every frame
  the FlexContainers rendered by either scene at 30 frames per second, in
  document order, give their cells exactly the ratios of a subsequence of the
  scene's \<open>ratios\<close> props (never the fallback \<open>1\<close> of a missing or falsy
  ratio), and at the last frame of each composition (1393 and 479) all of them
  are rendered.
\<close>

theorem scenes_rendered_flex_weights:
  "subseq (concat (map vflex_weights (render spr f f (choosing_scene 30))))
     [[Fin (15/100), Fin (85/100)], [Fin 1, Fin 1, Fin 1], [Fin (4/10), Fin (6/10)]]
   \<and> concat (map vflex_weights (render spr 1393 1393 (choosing_scene 30))) =
     [[Fin (15/100), Fin (85/100)], [Fin 1, Fin 1, Fin 1], [Fin (4/10), Fin (6/10)]]
   \<and> subseq (concat (map vflex_weights (render spr f f (scaled_scene 30))))
     [[Fin (15/100), Fin (85/100)], [Fin (4/10), Fin (6/10)], [Fin (5/10), Fin (5/10)],
      [Fin (33/100), Fin (33/100), Fin (34/100)]]
   \<and> concat (map vflex_weights (render spr 479 479 (scaled_scene 30))) =
     [[Fin (15/100), Fin (85/100)], [Fin (4/10), Fin (6/10)], [Fin (5/10), Fin (5/10)],
      [Fin (33/100), Fin (33/100), Fin (34/100)]]"
  using render_flex_weights [of spr f f "choosing_scene 30"] render_flex_weights [of spr f f "scaled_scene 30"]
  by (simp only: scenes_declared_weights crs_flex_weights_final spg_flex_weights_final simp_thms)

end
